theory Spec2Isabelle
  imports Main "HOL-Library.Word" "HOL-Library.Multiset"
begin

section \<open>The data model of memory_manager.h\<close>

text \<open>
  The tracker of \<^verbatim>\<open>memory_manager.c\<close> is a global table of 1000 records and two
  counters. The embedding fixes an LP64 platform: \<^verbatim>\<open>size_t\<close>, \<^verbatim>\<open>uint64_t\<close> and
  \<^verbatim>\<open>void*\<close> are 64-bit words, so \<open>+\<close> and \<open>-\<close> on them wrap as the C operators do.
  \<^verbatim>\<open>int\<close> values (the line number, the result of \<^verbatim>\<open>find_available_slot\<close>) are
  only stored, compared with \<open>-1\<close> or below 1000, so they are HOL integers.
\<close>

type_synonym size_t = "64 word"
type_synonym uint64_t = "64 word"
type_synonym ptr = "64 word"

abbreviation NULL :: ptr where
  "NULL \<equiv> 0"

definition MAX_FILENAME_LENGTH :: nat where
  "MAX_FILENAME_LENGTH = 256"

definition MAX_TRACKED_BLOCKS :: nat where
  "MAX_TRACKED_BLOCKS = 1000"

datatype MemoryAllocationType =
    MEMORY_TYPE_STATIC
  | MEMORY_TYPE_DYNAMIC
  | MEMORY_TYPE_TEMPORARY
  | MEMORY_TYPE_PERSISTENT

datatype MemoryStatus =
    MEMORY_STATUS_ALLOCATED
  | MEMORY_STATUS_FREED
  | MEMORY_STATUS_CORRUPTED

text \<open>
  The field \<^verbatim>\<open>size\<close> is \<open>size_bytes\<close> here (\<open>size\<close> is a constant of HOL). The
  256-byte buffer \<^verbatim>\<open>filename\<close> is modelled by the text it holds up to its first NUL
  byte.
\<close>

record MemoryBlock =
  pointer :: ptr
  size_bytes :: size_t
  filename :: string
  line_number :: int
  type :: MemoryAllocationType
  status :: MemoryStatus
  timestamp :: uint64_t

record MemoryTracker =
  blocks :: "MemoryBlock list"
  current_block_count :: size_t
  total_allocated_memory :: size_t

text \<open>
  What \<^verbatim>\<open>memset(p, 0, sizeof ...)\<close> leaves: every byte zero. The first enumerator of a
  C enum is 0, so a zeroed block has type \<open>MEMORY_TYPE_STATIC\<close> and status
  \<open>MEMORY_STATUS_ALLOCATED\<close>.
\<close>

definition zero_MemoryBlock :: MemoryBlock where
  "zero_MemoryBlock =
     \<lparr> pointer = NULL, size_bytes = 0, filename = [], line_number = 0,
       type = MEMORY_TYPE_STATIC, status = MEMORY_STATUS_ALLOCATED, timestamp = 0 \<rparr>"

definition zero_MemoryTracker :: MemoryTracker where
  "zero_MemoryTracker =
     \<lparr> blocks = replicate MAX_TRACKED_BLOCKS zero_MemoryBlock,
       current_block_count = 0, total_allocated_memory = 0 \<rparr>"

section \<open>The process around the tracker\<close>

text \<open>
  Everything the functions do besides updating the table is kept in the state: the lines
  written to \<^verbatim>\<open>stderr\<close> and \<^verbatim>\<open>stdout\<close> and the calls of \<^verbatim>\<open>malloc\<close> and
  \<^verbatim>\<open>free\<close>, in program order, and the set of addresses the allocator has handed out
  and not taken back. Each diagnostic is one constructor per format string of the source,
  carrying the arguments of the call.
\<close>

datatype diagnostic =
    Warning_zero_byte_allocation
      \<comment> \<open>\<^verbatim>\<open>"WARNING: Zero-byte allocation\n"\<close>\<close>
  | Error_memory_tracker_full
      \<comment> \<open>\<^verbatim>\<open>"ERROR: Memory tracker full\n"\<close>\<close>
  | Critical_allocation_failed string int
      \<comment> \<open>\<^verbatim>\<open>"CRITICAL: Allocation failed at %s:%d\n"\<close>\<close>
  | Warning_freeing_null string int
      \<comment> \<open>\<^verbatim>\<open>"WARNING: Freeing NULL pointer at %s:%d\n"\<close>\<close>
  | Warning_untracked_free string int
      \<comment> \<open>\<^verbatim>\<open>"WARNING: Untracked memory free at %s:%d\n"\<close>\<close>
  | Tool_warning_zero_bytes
      \<comment> \<open>\<^verbatim>\<open>"Warning: Attempting to allocate zero bytes\n"\<close> (memory_management_tool.c)\<close>
  | Tool_critical_allocation_failed string int
      \<comment> \<open>\<^verbatim>\<open>"CRITICAL: Memory allocation failed at %s:%d\n"\<close> (memory_management_tool.c)\<close>
  | Tool_critical_tracking_block_failed
      \<comment> \<open>\<^verbatim>\<open>"CRITICAL: Tracking block allocation failed\n"\<close> (memory_management_tool.c)\<close>

datatype report_line =
    Report_header
      \<comment> \<open>\<^verbatim>\<open>"\n--- MEMORY ALLOCATION REPORT ---\n"\<close>\<close>
  | Report_total_blocks size_t
      \<comment> \<open>\<^verbatim>\<open>"Total Blocks: %zu\n"\<close>\<close>
  | Report_total_allocated size_t
      \<comment> \<open>\<^verbatim>\<open>"Total Allocated: %zu bytes\n"\<close>\<close>
  | Report_block nat ptr size_t MemoryAllocationType MemoryStatus
      \<comment> \<open>\<^verbatim>\<open>"Block %zu: %p, %zu bytes, Type: %d, Status: %d\n"\<close>\<close>

datatype event =
    Stderr diagnostic
  | Stdout report_line
  | Malloc size_t ptr  \<comment> \<open>\<^verbatim>\<open>malloc(size)\<close> was called and returned the pointer\<close>
  | Free ptr           \<comment> \<open>\<^verbatim>\<open>free(p)\<close> was called\<close>

record process =
  heap :: "ptr set"
  trace :: "event list"

record tracked_process = process +
  g_memory_tracker :: MemoryTracker
  timestamp_static :: uint64_t  \<comment> \<open>the \<^verbatim>\<open>static uint64_t timestamp\<close> of \<^verbatim>\<open>get_current_timestamp\<close>\<close>

text \<open>
  A call either returns a value and the next state, or ends the process with
  \<^verbatim>\<open>exit\<close>, or passes to \<^verbatim>\<open>free\<close> a non-null pointer that the allocator does not
  currently own (never handed out, or released already), which C leaves undefined; in
  practice the allocator aborts or corrupts its heap. Nothing after that is modelled:
  \<open>Undefined_free p s\<close> holds the pointer and the state in which \<^verbatim>\<open>free(p)\<close> was
  called, with all that the program had written and stored by then.
\<close>

datatype ('a, 's) outcome =
    Return 'a 's
  | Exit int 's
  | Undefined_free ptr 's

text \<open>
  \<^verbatim>\<open>malloc\<close> is the environment's: what it answers is an argument of the model
  (\<open>NULL\<close> when it fails), and theorems hold for every answer unless they say otherwise.
\<close>

definition c_malloc :: "size_t \<Rightarrow> ptr \<Rightarrow> 's process_scheme \<Rightarrow> ptr \<times> 's process_scheme" where
  "c_malloc n answer s =
     (answer,
      s\<lparr> heap := (if answer = NULL then heap s else insert answer (heap s)),
         trace := trace s @ [Malloc n answer] \<rparr>)"

definition c_free :: "ptr \<Rightarrow> 's process_scheme \<Rightarrow> (unit, 's process_scheme) outcome" where
  "c_free p s =
     (if p = NULL then Return () (s\<lparr> trace := trace s @ [Free p] \<rparr>)
      else if p \<in> heap s then Return () (s\<lparr> heap := heap s - {p}, trace := trace s @ [Free p] \<rparr>)
      else Undefined_free p s)"

definition fprintf_stderr :: "diagnostic \<Rightarrow> 's process_scheme \<Rightarrow> 's process_scheme" where
  "fprintf_stderr d s = s\<lparr> trace := trace s @ [Stderr d] \<rparr>"

definition printf :: "report_line \<Rightarrow> 's process_scheme \<Rightarrow> 's process_scheme" where
  "printf l s = s\<lparr> trace := trace s @ [Stdout l] \<rparr>"

text \<open>
  \<^verbatim>\<open>strncpy(dst, src, n)\<close> followed by \<^verbatim>\<open>dst[n] = '\0'\<close>, on the text held: the
  bytes of the source before its first NUL, at most \<open>n\<close> of them.
\<close>

definition strncpy_terminated :: "string \<Rightarrow> nat \<Rightarrow> string" where
  "strncpy_terminated src n = take n (takeWhile (\<lambda>c. c \<noteq> CHR 0x00) src)"

section \<open>memory_manager.c\<close>

text \<open>
  The functions take the state of the process and return the next one. Each \<^verbatim>\<open>for\<close>
  loop over the table is the function \<open>..._from\<close>, the rest of the loop from index
  \<open>i\<close> on; it ends because \<open>MAX_TRACKED_BLOCKS - i\<close> decreases.
\<close>

definition get_current_timestamp :: "tracked_process \<Rightarrow> uint64_t \<times> tracked_process" where
  "get_current_timestamp s =
     (timestamp_static s + 1, s\<lparr> timestamp_static := timestamp_static s + 1 \<rparr>)"

function find_available_slot_from :: "MemoryTracker \<Rightarrow> nat \<Rightarrow> int" where
  "find_available_slot_from t i =
     (if i < MAX_TRACKED_BLOCKS then
        (if pointer (blocks t ! i) = NULL then int i
         else find_available_slot_from t (i + 1))
      else -1)"
  by pat_completeness auto
termination
  by (relation "measure (\<lambda>(t, i). MAX_TRACKED_BLOCKS - i)") auto

definition find_available_slot :: "MemoryTracker \<Rightarrow> int" where
  "find_available_slot t = find_available_slot_from t 0"

definition memory_manager_init :: "tracked_process \<Rightarrow> tracked_process" where
  "memory_manager_init s = s\<lparr> g_memory_tracker := zero_MemoryTracker \<rparr>"

text \<open>
  \<open>answer\<close> is what \<^verbatim>\<open>malloc(size)\<close> returns if the call reaches it. The fields of
  the block are assigned in the order of the source; the call of
  \<^verbatim>\<open>get_current_timestamp\<close> is the only other change of state among them.
\<close>

definition safe_memory_allocate ::
  "size_t \<Rightarrow> string \<Rightarrow> int \<Rightarrow> MemoryAllocationType \<Rightarrow> ptr \<Rightarrow> tracked_process
     \<Rightarrow> (ptr, tracked_process) outcome" where
  "safe_memory_allocate size' filename' line_number' type' answer s =
     (if size' = 0 then
        Return NULL (fprintf_stderr Warning_zero_byte_allocation s)
      else if current_block_count (g_memory_tracker s) \<ge> of_nat MAX_TRACKED_BLOCKS then
        Return NULL (fprintf_stderr Error_memory_tracker_full s)
      else
        let (memory, s1) = c_malloc size' answer s in
        if memory = NULL then
          Return NULL (fprintf_stderr (Critical_allocation_failed filename' line_number') s1)
        else
          let slot = find_available_slot (g_memory_tracker s1) in
          if slot = -1 then
            (case c_free memory s1 of
               Return _ s2 \<Rightarrow> Return NULL s2
             | Exit c s2 \<Rightarrow> Exit c s2
             | Undefined_free p s2 \<Rightarrow> Undefined_free p s2)
          else
            let (ts, s2) = get_current_timestamp s1;
                t = g_memory_tracker s2;
                block = (blocks t ! nat slot)
                  \<lparr> pointer := memory,
                    size_bytes := size',
                    type := type',
                    status := MEMORY_STATUS_ALLOCATED,
                    line_number := line_number',
                    timestamp := ts,
                    filename := strncpy_terminated filename' (MAX_FILENAME_LENGTH - 1) \<rparr>
            in Return memory
                 (s2\<lparr> g_memory_tracker :=
                    t\<lparr> blocks := (blocks t)[nat slot := block],
                       current_block_count := current_block_count t + 1,
                       total_allocated_memory := total_allocated_memory t + size' \<rparr> \<rparr>))"

text \<open>
  In the found branch the counters are updated and the status is set to
  \<open>MEMORY_STATUS_FREED\<close> before \<^verbatim>\<open>free\<close> is called, and the slot is zeroed
  (\<^verbatim>\<open>memset\<close>) after it has returned.
\<close>

function safe_memory_free_from ::
  "ptr \<Rightarrow> string \<Rightarrow> int \<Rightarrow> tracked_process \<Rightarrow> nat \<Rightarrow> (unit, tracked_process) outcome" where
  "safe_memory_free_from memory filename' line_number' s i =
     (if i < MAX_TRACKED_BLOCKS then
        (let t = g_memory_tracker s; block = blocks t ! i in
         if pointer block = memory then
           (let t1 = t\<lparr> total_allocated_memory := total_allocated_memory t - size_bytes block \<rparr>;
                t2 = t1\<lparr> current_block_count := current_block_count t1 - 1 \<rparr>;
                t3 = t2\<lparr> blocks := (blocks t2)[i := block\<lparr> status := MEMORY_STATUS_FREED \<rparr>] \<rparr>
            in case c_free memory (s\<lparr> g_memory_tracker := t3 \<rparr>) of
                 Return _ s1 \<Rightarrow>
                   Return ()
                     (s1\<lparr> g_memory_tracker :=
                        (g_memory_tracker s1)
                          \<lparr> blocks := (blocks (g_memory_tracker s1))[i := zero_MemoryBlock] \<rparr> \<rparr>)
               | Exit c s1 \<Rightarrow> Exit c s1
               | Undefined_free p s1 \<Rightarrow> Undefined_free p s1)
         else safe_memory_free_from memory filename' line_number' s (i + 1))
      else
        c_free memory (fprintf_stderr (Warning_untracked_free filename' line_number') s))"
  by pat_completeness auto
termination
  by (relation "measure (\<lambda>(m, f, l, s, i). MAX_TRACKED_BLOCKS - i)") auto

definition safe_memory_free ::
  "ptr \<Rightarrow> string \<Rightarrow> int \<Rightarrow> tracked_process \<Rightarrow> (unit, tracked_process) outcome" where
  "safe_memory_free memory filename' line_number' s =
     (if memory = NULL then
        Return () (fprintf_stderr (Warning_freeing_null filename' line_number') s)
      else safe_memory_free_from memory filename' line_number' s 0)"

function generate_memory_report_from :: "tracked_process \<Rightarrow> nat \<Rightarrow> tracked_process" where
  "generate_memory_report_from s i =
     (if i < MAX_TRACKED_BLOCKS then
        (let block = blocks (g_memory_tracker s) ! i in
         generate_memory_report_from
           (if pointer block \<noteq> NULL then
              printf (Report_block i (pointer block) (size_bytes block) (type block) (status block)) s
            else s)
           (i + 1))
      else s)"
  by pat_completeness auto
termination
  by (relation "measure (\<lambda>(s, i). MAX_TRACKED_BLOCKS - i)") auto

definition generate_memory_report :: "tracked_process \<Rightarrow> tracked_process" where
  "generate_memory_report s =
     (let s1 = printf Report_header s;
          s2 = printf (Report_total_blocks (current_block_count (g_memory_tracker s1))) s1;
          s3 = printf (Report_total_allocated (total_allocated_memory (g_memory_tracker s2))) s2
      in generate_memory_report_from s3 0)"

definition get_total_allocated_memory :: "tracked_process \<Rightarrow> size_t" where
  "get_total_allocated_memory s = total_allocated_memory (g_memory_tracker s)"

definition get_current_block_count :: "tracked_process \<Rightarrow> size_t" where
  "get_current_block_count s = current_block_count (g_memory_tracker s)"

section \<open>Sequences of calls\<close>

text \<open>
  A caller's request, with what \<^verbatim>\<open>malloc\<close> will answer if the request reaches it.
  The program starts with the tracker and the counter of \<^verbatim>\<open>get_current_timestamp\<close>
  zero-initialised (static storage; \<^verbatim>\<open>g_memory_tracker = {0}\<close>), whatever the heap
  holds by then.
\<close>

datatype operation =
    Op_init
  | Op_allocate size_t string int MemoryAllocationType ptr
  | Op_free ptr string int
  | Op_report

fun perform :: "operation \<Rightarrow> tracked_process \<Rightarrow> (unit, tracked_process) outcome" where
  "perform Op_init s = Return () (memory_manager_init s)"
| "perform (Op_allocate n f l ty answer) s =
     (case safe_memory_allocate n f l ty answer s of
        Return _ s' \<Rightarrow> Return () s'
      | Exit c s' \<Rightarrow> Exit c s'
      | Undefined_free p s' \<Rightarrow> Undefined_free p s')"
| "perform (Op_free p f l) s = safe_memory_free p f l s"
| "perform Op_report s = Return () (generate_memory_report s)"

fun run :: "operation list \<Rightarrow> tracked_process \<Rightarrow> (unit, tracked_process) outcome" where
  "run [] s = Return () s"
| "run (x # xs) s =
     (case perform x s of
        Return _ s' \<Rightarrow> run xs s'
      | Exit c s' \<Rightarrow> Exit c s'
      | Undefined_free p s' \<Rightarrow> Undefined_free p s')"

definition program_start :: "ptr set \<Rightarrow> tracked_process" where
  "program_start h =
     \<lparr> heap = h, trace = [], g_memory_tracker = zero_MemoryTracker, timestamp_static = 0 \<rparr>"

section \<open>Properties of the table\<close>

definition occupied :: "MemoryBlock \<Rightarrow> bool" where
  "occupied b = (pointer b \<noteq> NULL)"

text \<open>The C array has exactly \<open>MAX_TRACKED_BLOCKS\<close> elements.\<close>

definition tracker_wf :: "MemoryTracker \<Rightarrow> bool" where
  "tracker_wf t = (length (blocks t) = MAX_TRACKED_BLOCKS)"

text \<open>
  The counters recomputed from a full scan of the table. The sum of the sizes is taken in
  \<^verbatim>\<open>size_t\<close>, as the counter itself is.
\<close>

definition count_occupied :: "MemoryTracker \<Rightarrow> nat" where
  "count_occupied t = length (filter occupied (blocks t))"

definition sum_occupied :: "MemoryTracker \<Rightarrow> size_t" where
  "sum_occupied t = sum_list (map size_bytes (filter occupied (blocks t)))"

definition aggregates_consistent :: "MemoryTracker \<Rightarrow> bool" where
  "aggregates_consistent t =
     (unat (current_block_count t) = count_occupied t \<and>
      total_allocated_memory t = sum_occupied t)"

definition statuses_allocated :: "MemoryTracker \<Rightarrow> bool" where
  "statuses_allocated t = list_all (\<lambda>b. status b = MEMORY_STATUS_ALLOCATED) (blocks t)"

text \<open>
  Every tracked address is a block the allocator currently owns, and no address is tracked
  twice: what holds of the table when \<^verbatim>\<open>malloc\<close> never hands out an address it has
  not got back, and only the tracker frees.
\<close>

definition tracked_pointers :: "MemoryTracker \<Rightarrow> ptr list" where
  "tracked_pointers t = map pointer (filter occupied (blocks t))"

definition tracked_live :: "tracked_process \<Rightarrow> bool" where
  "tracked_live s =
     (list_all (\<lambda>p. p \<in> heap s) (tracked_pointers (g_memory_tracker s)) \<and>
      distinct (tracked_pointers (g_memory_tracker s)))"

text \<open>
  \<open>allocator_sound xs s\<close>: along the run of \<open>xs\<close> from \<open>s\<close>, each answer of
  \<^verbatim>\<open>malloc\<close> is \<open>NULL\<close> or an address the allocator does not own at that moment.
\<close>

fun allocator_sound :: "operation list \<Rightarrow> tracked_process \<Rightarrow> bool" where
  "allocator_sound [] s = True"
| "allocator_sound (x # xs) s =
     ((case x of
         Op_allocate n f l ty answer \<Rightarrow> answer = NULL \<or> answer \<notin> heap s
       | _ \<Rightarrow> True) \<and>
      (case perform x s of
         Return _ s' \<Rightarrow> allocator_sound xs s'
       | _ \<Rightarrow> True))"

text \<open>
  The found branch of the loop of \<^verbatim>\<open>safe_memory_free\<close>, at slot \<open>i\<close>, as the loop
  body has it.
\<close>

definition found_free :: "ptr \<Rightarrow> tracked_process \<Rightarrow> nat \<Rightarrow> (unit, tracked_process) outcome" where
  "found_free memory s i =
     (let t = g_memory_tracker s; block = blocks t ! i;
          t1 = t\<lparr> total_allocated_memory := total_allocated_memory t - size_bytes block \<rparr>;
          t2 = t1\<lparr> current_block_count := current_block_count t1 - 1 \<rparr>;
          t3 = t2\<lparr> blocks := (blocks t2)[i := block\<lparr> status := MEMORY_STATUS_FREED \<rparr>] \<rparr>
      in case c_free memory (s\<lparr> g_memory_tracker := t3 \<rparr>) of
           Return _ s1 \<Rightarrow>
             Return ()
               (s1\<lparr> g_memory_tracker :=
                  (g_memory_tracker s1)
                    \<lparr> blocks := (blocks (g_memory_tracker s1))[i := zero_MemoryBlock] \<rparr> \<rparr>)
         | Exit c s1 \<Rightarrow> Exit c s1
         | Undefined_free p s1 \<Rightarrow> Undefined_free p s1)"

text \<open>What the report prints for slot \<open>i\<close>, and the slots it prints a line for.\<close>

definition report_block :: "MemoryTracker \<Rightarrow> nat \<Rightarrow> report_line" where
  "report_block t i =
     (let block = blocks t ! i
      in Report_block i (pointer block) (size_bytes block) (type block) (status block))"

definition occupied_slots :: "MemoryTracker \<Rightarrow> nat list" where
  "occupied_slots t = filter (\<lambda>i. pointer (blocks t ! i) \<noteq> NULL) [0..<MAX_TRACKED_BLOCKS]"

text \<open>
  The handles that the allocations of a run returned (a successful allocation returns a
  non-null handle), and the handles that its frees found in the table, in call order.
\<close>

definition tracked :: "ptr \<Rightarrow> tracked_process \<Rightarrow> bool" where
  "tracked p s = (p \<noteq> NULL \<and> p \<in> set (map pointer (blocks (g_memory_tracker s))))"

fun allocated_handles :: "operation list \<Rightarrow> tracked_process \<Rightarrow> ptr list" where
  "allocated_handles [] s = []"
| "allocated_handles (Op_allocate n f l ty answer # xs) s =
     (case safe_memory_allocate n f l ty answer s of
        Return p s' \<Rightarrow> (if p \<noteq> NULL then [p] else []) @ allocated_handles xs s'
      | _ \<Rightarrow> [])"
| "allocated_handles (x # xs) s =
     (case perform x s of Return _ s' \<Rightarrow> allocated_handles xs s' | _ \<Rightarrow> [])"

fun freed_handles :: "operation list \<Rightarrow> tracked_process \<Rightarrow> ptr list" where
  "freed_handles [] s = []"
| "freed_handles (Op_free p f l # xs) s =
     (case safe_memory_free p f l s of
        Return _ s' \<Rightarrow> (if tracked p s then [p] else []) @ freed_handles xs s'
      | _ \<Rightarrow> [])"
| "freed_handles (x # xs) s =
     (case perform x s of Return _ s' \<Rightarrow> freed_handles xs s' | _ \<Rightarrow> [])"

section \<open>memory_management_tool.c: the allocation of the linked-list variant\<close>

text \<open>
  The second program of the repository keeps its records in a linked list of heap nodes,
  newest first. The list is modelled by the nodes in list order, each with its address;
  the \<^verbatim>\<open>next\<close> field is the order of the list. \<^verbatim>\<open>strncpy\<close> writes the first 255
  bytes of the \<^verbatim>\<open>filename\<close> buffer of a fresh node and nothing writes the last one:
  the field holds the text of those 255 bytes. \<^verbatim>\<open>MEMORY_TRACKING_ENABLED\<close> is 1, so the
  tracking code is compiled in. \<^verbatim>\<open>sizeof(MemoryBlock)\<close> is 288 on LP64, and
  \<^verbatim>\<open>EXIT_FAILURE\<close> is 1.
\<close>

datatype MemoryAllocationType_tool =
    MEMORY_TYPE_STATIC_tool
  | MEMORY_TYPE_DYNAMIC_tool
  | MEMORY_TYPE_TEMPORARY_tool

record MemoryBlock_tool =
  pointer_tool :: ptr
  size_tool :: size_t
  filename_tool :: string
  line_number_tool :: int
  type_tool :: MemoryAllocationType_tool

record tool_process = process +
  g_memory_tracker_tool :: "(ptr \<times> MemoryBlock_tool) list"

definition EXIT_FAILURE :: int where
  "EXIT_FAILURE = 1"

definition sizeof_MemoryBlock_tool :: size_t where
  "sizeof_MemoryBlock_tool = 288"

definition safe_memory_allocate_tool ::
  "size_t \<Rightarrow> string \<Rightarrow> int \<Rightarrow> MemoryAllocationType_tool \<Rightarrow> ptr \<Rightarrow> ptr \<Rightarrow> tool_process
     \<Rightarrow> (ptr, tool_process) outcome" where
  "safe_memory_allocate_tool size' filename' line_number' type' answer answer_tracking s =
     (if size' = 0 then
        Return NULL (fprintf_stderr Tool_warning_zero_bytes s)
      else
        let (allocated_memory, s1) = c_malloc size' answer s in
        if allocated_memory = NULL then
          Exit EXIT_FAILURE
            (fprintf_stderr (Tool_critical_allocation_failed filename' line_number') s1)
        else
          let (tracking_block, s2) = c_malloc sizeof_MemoryBlock_tool answer_tracking s1 in
          if tracking_block = NULL then
            (case c_free allocated_memory s2 of
               Return _ s3 \<Rightarrow>
                 Exit EXIT_FAILURE (fprintf_stderr Tool_critical_tracking_block_failed s3)
             | Exit c s3 \<Rightarrow> Exit c s3
             | Undefined_free p s3 \<Rightarrow> Undefined_free p s3)
          else
            Return allocated_memory
              (s2\<lparr> g_memory_tracker_tool :=
                 (tracking_block,
                  \<lparr> pointer_tool = allocated_memory,
                    size_tool = size',
                    filename_tool = strncpy_terminated filename' (MAX_FILENAME_LENGTH - 1),
                    line_number_tool = line_number',
                    type_tool = type' \<rparr>)
                 # g_memory_tracker_tool s2 \<rparr>))"

section \<open>The two successful updates, and the slot a scan stops at\<close>

text \<open>
  \<open>allocate_at\<close> is the state after an allocation that stored its record in slot \<open>i\<close>,
  \<open>free_at\<close> the state after a free that found its handle in slot \<open>i\<close>.
  \<open>first_slot t p i\<close>: scanning from index 0, slot \<open>i\<close> is the first whose pointer is
  \<open>p\<close>; \<open>no_slot t p\<close>: the scan finds none.
\<close>

definition allocate_at ::
  "size_t \<Rightarrow> string \<Rightarrow> int \<Rightarrow> MemoryAllocationType \<Rightarrow> ptr \<Rightarrow> nat \<Rightarrow> tracked_process
     \<Rightarrow> tracked_process" where
  "allocate_at n f l ty a i s =
     s\<lparr> heap := insert a (heap s),
        trace := trace s @ [Malloc n a],
        timestamp_static := timestamp_static s + 1,
        g_memory_tracker :=
          (g_memory_tracker s)
            \<lparr> blocks := (blocks (g_memory_tracker s))
                 [i := \<lparr> pointer = a, size_bytes = n,
                     filename = strncpy_terminated f (MAX_FILENAME_LENGTH - 1),
                     line_number = l, type = ty, status = MEMORY_STATUS_ALLOCATED,
                     timestamp = timestamp_static s + 1 \<rparr>],
               current_block_count := current_block_count (g_memory_tracker s) + 1,
               total_allocated_memory := total_allocated_memory (g_memory_tracker s) + n \<rparr> \<rparr>"

definition free_at :: "ptr \<Rightarrow> nat \<Rightarrow> tracked_process \<Rightarrow> tracked_process" where
  "free_at memory i s =
     s\<lparr> heap := heap s - {memory},
        trace := trace s @ [Free memory],
        g_memory_tracker :=
          (g_memory_tracker s)
            \<lparr> blocks := (blocks (g_memory_tracker s))[i := zero_MemoryBlock],
               current_block_count := current_block_count (g_memory_tracker s) - 1,
               total_allocated_memory :=
                 total_allocated_memory (g_memory_tracker s)
                 - size_bytes (blocks (g_memory_tracker s) ! i) \<rparr> \<rparr>"

text \<open>
  \<open>freeing_at i s\<close> is the state in which a free that found its handle in slot \<open>i\<close>
  calls \<^verbatim>\<open>free\<close>: the counters are updated and the status of the slot is
  \<open>MEMORY_STATUS_FREED\<close>, the slot is not yet zeroed.
\<close>

definition freeing_at :: "nat \<Rightarrow> tracked_process \<Rightarrow> tracked_process" where
  "freeing_at i s =
     s\<lparr> g_memory_tracker :=
          (g_memory_tracker s)
            \<lparr> blocks := (blocks (g_memory_tracker s))
                 [i := (blocks (g_memory_tracker s) ! i)\<lparr> status := MEMORY_STATUS_FREED \<rparr>],
               current_block_count := current_block_count (g_memory_tracker s) - 1,
               total_allocated_memory :=
                 total_allocated_memory (g_memory_tracker s)
                 - size_bytes (blocks (g_memory_tracker s) ! i) \<rparr> \<rparr>"

definition first_slot :: "MemoryTracker \<Rightarrow> ptr \<Rightarrow> nat \<Rightarrow> bool" where
  "first_slot t p i =
     (i < MAX_TRACKED_BLOCKS \<and> pointer (blocks t ! i) = p \<and>
      (\<forall>j<i. pointer (blocks t ! j) \<noteq> p))"

definition no_slot :: "MemoryTracker \<Rightarrow> ptr \<Rightarrow> bool" where
  "no_slot t p = (\<forall>j<MAX_TRACKED_BLOCKS. pointer (blocks t ! j) \<noteq> p)"

text \<open>What every table reached from the start of the program satisfies.\<close>

definition table_invariant :: "MemoryTracker \<Rightarrow> bool" where
  "table_invariant t = (tracker_wf t \<and> aggregates_consistent t \<and> statuses_allocated t)"

section \<open>Sample states\<close>

text \<open>
  The round trip of the demonstration: from the start of the program with an empty heap,
  20 bytes are allocated at address \<open>0x1000\<close> (\<open>demo_1\<close>), 50 bytes at \<open>0x2000\<close>
  (\<open>demo_2\<close>), then the first block is freed (\<open>demo_3\<close>) and the second
  (\<open>demo_4\<close>). \<open>demo_full\<close> is a table whose 1000 slots are all occupied, and
  \<open>demo_tool\<close> the linked-list program with nothing tracked.
\<close>

definition demo_1 :: tracked_process where
  "demo_1 = allocate_at 20 ''main.c'' 24 MEMORY_TYPE_DYNAMIC 0x1000 0 (program_start {})"

definition demo_2 :: tracked_process where
  "demo_2 = allocate_at 50 ''main.c'' 35 MEMORY_TYPE_TEMPORARY 0x2000 1 demo_1"

definition demo_3 :: tracked_process where
  "demo_3 = free_at 0x1000 0 demo_2"

definition demo_4 :: tracked_process where
  "demo_4 = free_at 0x2000 1 demo_3"

definition demo_full :: tracked_process where
  "demo_full =
     \<lparr> heap = {0x7000}, trace = [],
       g_memory_tracker =
         \<lparr> blocks = replicate 1000
             \<lparr> pointer = 0x7000, size_bytes = 1, filename = ''main.c'', line_number = 9,
               type = MEMORY_TYPE_STATIC, status = MEMORY_STATUS_ALLOCATED, timestamp = 1 \<rparr>,
           current_block_count = 1000, total_allocated_memory = 1000 \<rparr>,
       timestamp_static = 1 \<rparr>"

definition demo_tool :: tool_process where
  "demo_tool = \<lparr> heap = {}, trace = [], g_memory_tracker_tool = [] \<rparr>"

section \<open>The loops\<close>

declare find_available_slot_from.simps [simp del]
declare safe_memory_free_from.simps [simp del]
declare generate_memory_report_from.simps [simp del]

lemma find_available_slot_from_first:
  "i \<le> k \<Longrightarrow> k < MAX_TRACKED_BLOCKS \<Longrightarrow> pointer (blocks t ! k) = NULL \<Longrightarrow>
   (\<forall>j. i \<le> j \<and> j < k \<longrightarrow> pointer (blocks t ! j) \<noteq> NULL) \<Longrightarrow>
   find_available_slot_from t i = int k"
proof (induction t i rule: find_available_slot_from.induct)
  case (1 t i)
  show ?case
  proof (cases "i = k")
    case True
    with "1.prems" show ?thesis
      by (simp add: find_available_slot_from.simps [of t k])
  next
    case False
    with "1.prems" have lt: "i < k" and occ: "pointer (blocks t ! i) \<noteq> NULL"
      by auto
    from lt "1.prems" have "find_available_slot_from t (i + 1) = int k"
      by (intro "1.IH") auto
    with lt occ "1.prems" show ?thesis
      by (simp add: find_available_slot_from.simps [of t i])
  qed
qed

lemma find_available_slot_from_none:
  "(\<forall>j. i \<le> j \<and> j < MAX_TRACKED_BLOCKS \<longrightarrow> pointer (blocks t ! j) \<noteq> NULL) \<Longrightarrow>
   find_available_slot_from t i = -1"
proof (induction t i rule: find_available_slot_from.induct)
  case (1 t i)
  show ?case
  proof (cases "i < MAX_TRACKED_BLOCKS")
    case True
    with "1.prems" have occ: "pointer (blocks t ! i) \<noteq> NULL" by auto
    from True occ "1.prems" have "find_available_slot_from t (i + 1) = -1"
      by (intro "1.IH") auto
    with True occ show ?thesis
      by (simp add: find_available_slot_from.simps [of t i])
  next
    case False
    then show ?thesis
      by (simp add: find_available_slot_from.simps [of t i])
  qed
qed

lemma safe_memory_free_from_first:
  "i \<le> k \<Longrightarrow> k < MAX_TRACKED_BLOCKS \<Longrightarrow> pointer (blocks (g_memory_tracker s) ! k) = memory \<Longrightarrow>
   (\<forall>j. i \<le> j \<and> j < k \<longrightarrow> pointer (blocks (g_memory_tracker s) ! j) \<noteq> memory) \<Longrightarrow>
   safe_memory_free_from memory f l s i = found_free memory s k"
proof (induction memory f l s i rule: safe_memory_free_from.induct)
  case (1 memory f l s i)
  show ?case
  proof (cases "i = k")
    case True
    with "1.prems" show ?thesis
      by (simp add: safe_memory_free_from.simps [of memory f l s k] found_free_def Let_def)
  next
    case False
    with "1.prems" have lt: "i < k"
      and occ: "pointer (blocks (g_memory_tracker s) ! i) \<noteq> memory"
      by auto
    from lt "1.prems" occ have "safe_memory_free_from memory f l s (i + 1) = found_free memory s k"
      by (intro "1.IH") auto
    with lt occ "1.prems" show ?thesis
      by (simp add: safe_memory_free_from.simps [of memory f l s i] Let_def)
  qed
qed

lemma safe_memory_free_from_none:
  "(\<forall>j. i \<le> j \<and> j < MAX_TRACKED_BLOCKS \<longrightarrow> pointer (blocks (g_memory_tracker s) ! j) \<noteq> memory) \<Longrightarrow>
   safe_memory_free_from memory f l s i =
     c_free memory (fprintf_stderr (Warning_untracked_free f l) s)"
proof (induction memory f l s i rule: safe_memory_free_from.induct)
  case (1 memory f l s i)
  show ?case
  proof (cases "i < MAX_TRACKED_BLOCKS")
    case True
    with "1.prems" have occ: "pointer (blocks (g_memory_tracker s) ! i) \<noteq> memory" by auto
    from True occ "1.prems"
    have "safe_memory_free_from memory f l s (i + 1) =
            c_free memory (fprintf_stderr (Warning_untracked_free f l) s)"
      by (intro "1.IH") auto
    with True occ show ?thesis
      by (simp add: safe_memory_free_from.simps [of memory f l s i] Let_def)
  next
    case False
    then show ?thesis
      by (simp add: safe_memory_free_from.simps [of memory f l s i])
  qed
qed


lemma printf_tracker [simp]:
  "g_memory_tracker (printf l s) = g_memory_tracker s"
  "timestamp_static (printf l s) = timestamp_static s"
  "heap (printf l s) = heap s"
  "trace (printf l s) = trace s @ [Stdout l]"
  by (simp_all add: printf_def)

lemma generate_memory_report_from_eq:
  "generate_memory_report_from s i =
     s\<lparr> trace := trace s @
          map (\<lambda>j. Stdout (report_block (g_memory_tracker s) j))
            (filter (\<lambda>j. pointer (blocks (g_memory_tracker s) ! j) \<noteq> NULL)
               [i..<MAX_TRACKED_BLOCKS]) \<rparr>"
proof (induction s i rule: generate_memory_report_from.induct)
  case (1 s i)
  show ?case
  proof (cases "i < MAX_TRACKED_BLOCKS")
    case False
    then show ?thesis
      by (simp add: generate_memory_report_from.simps [of s i])
  next
    case True
    let ?b = "blocks (g_memory_tracker s) ! i"
    let ?s' = "if pointer ?b \<noteq> NULL
               then printf (Report_block i (pointer ?b) (size_bytes ?b) (type ?b) (status ?b)) s
               else s"
    have step: "generate_memory_report_from s i = generate_memory_report_from ?s' (i + 1)"
      using True by (simp add: generate_memory_report_from.simps [of s i] Let_def)
    have ih: "generate_memory_report_from ?s' (i + 1) =
        ?s'\<lparr> trace := trace ?s' @
          map (\<lambda>j. Stdout (report_block (g_memory_tracker ?s') j))
            (filter (\<lambda>j. pointer (blocks (g_memory_tracker ?s') ! j) \<noteq> NULL)
               [i + 1..<MAX_TRACKED_BLOCKS]) \<rparr>"
      using True by (intro "1.IH") simp_all
    have upt: "[i..<MAX_TRACKED_BLOCKS] = i # [i + 1..<MAX_TRACKED_BLOCKS]"
      using True by (simp add: upt_conv_Cons)
    show ?thesis
      unfolding step ih upt
      by (simp add: report_block_def printf_def Let_def)
  qed
qed

lemma generate_memory_report_eq:
  "generate_memory_report s =
     s\<lparr> trace := trace s @
          [Stdout Report_header,
           Stdout (Report_total_blocks (current_block_count (g_memory_tracker s))),
           Stdout (Report_total_allocated (total_allocated_memory (g_memory_tracker s)))] @
          map (\<lambda>i. Stdout (report_block (g_memory_tracker s) i))
            (occupied_slots (g_memory_tracker s)) \<rparr>"
  by (simp add: generate_memory_report_def generate_memory_report_from_eq Let_def
      occupied_slots_def printf_def)

section \<open>The branches of the allocation\<close>

lemma find_available_slot_none:
  assumes "\<forall>j<MAX_TRACKED_BLOCKS. pointer (blocks t ! j) \<noteq> NULL"
  shows "find_available_slot t = -1"
  unfolding find_available_slot_def
  by (rule find_available_slot_from_none) (simp add: assms)

lemma find_available_slot_first:
  assumes "i < MAX_TRACKED_BLOCKS" and "pointer (blocks t ! i) = NULL"
    and "\<forall>j<i. pointer (blocks t ! j) \<noteq> NULL"
  shows "find_available_slot t = int i"
  unfolding find_available_slot_def
  by (rule find_available_slot_from_first) (simp_all add: assms)

lemma allocate_zero:
  "safe_memory_allocate 0 f l ty a s =
     Return NULL (s\<lparr> trace := trace s @ [Stderr Warning_zero_byte_allocation] \<rparr>)"
  by (simp add: safe_memory_allocate_def fprintf_stderr_def)

lemma allocate_full:
  "n \<noteq> 0 \<Longrightarrow> of_nat MAX_TRACKED_BLOCKS \<le> current_block_count (g_memory_tracker s) \<Longrightarrow>
   safe_memory_allocate n f l ty a s =
     Return NULL (s\<lparr> trace := trace s @ [Stderr Error_memory_tracker_full] \<rparr>)"
  by (simp add: safe_memory_allocate_def fprintf_stderr_def)

lemma allocate_malloc_failed:
  "n \<noteq> 0 \<Longrightarrow> current_block_count (g_memory_tracker s) < of_nat MAX_TRACKED_BLOCKS \<Longrightarrow>
   safe_memory_allocate n f l ty NULL s =
     Return NULL
       (s\<lparr> trace := trace s @ [Malloc n NULL, Stderr (Critical_allocation_failed f l)] \<rparr>)"
  by (simp add: safe_memory_allocate_def fprintf_stderr_def c_malloc_def leD)

lemma allocate_no_slot:
  "n \<noteq> 0 \<Longrightarrow> current_block_count (g_memory_tracker s) < of_nat MAX_TRACKED_BLOCKS \<Longrightarrow>
   a \<noteq> NULL \<Longrightarrow> \<forall>j<MAX_TRACKED_BLOCKS. pointer (blocks (g_memory_tracker s) ! j) \<noteq> NULL \<Longrightarrow>
   safe_memory_allocate n f l ty a s =
     Return NULL (s\<lparr> heap := heap s - {a}, trace := trace s @ [Malloc n a, Free a] \<rparr>)"
proof -
  assume a: "n \<noteq> 0" "current_block_count (g_memory_tracker s) < of_nat MAX_TRACKED_BLOCKS"
    "a \<noteq> NULL" "\<forall>j<MAX_TRACKED_BLOCKS. pointer (blocks (g_memory_tracker s) ! j) \<noteq> NULL"
  then have "find_available_slot (g_memory_tracker s) = -1"
    by (intro find_available_slot_none)
  with a show ?thesis
    by (simp add: safe_memory_allocate_def c_malloc_def c_free_def leD)
qed

lemma MemoryBlock_overwrite:
  "b\<lparr> pointer := a, size_bytes := n, type := ty, status := st, line_number := l,
      timestamp := ts, filename := fn \<rparr> =
   \<lparr> pointer = a, size_bytes = n, filename = fn, line_number = l, type = ty, status = st,
     timestamp = ts \<rparr>"
  by (cases b) simp

lemma allocate_success:
  assumes "n \<noteq> 0"
    and "current_block_count (g_memory_tracker s) < of_nat MAX_TRACKED_BLOCKS"
    and "a \<noteq> NULL"
    and "i < MAX_TRACKED_BLOCKS"
    and "pointer (blocks (g_memory_tracker s) ! i) = NULL"
    and "\<forall>j<i. pointer (blocks (g_memory_tracker s) ! j) \<noteq> NULL"
  shows "safe_memory_allocate n f l ty a s =
     Return a
       (s\<lparr> heap := insert a (heap s),
          trace := trace s @ [Malloc n a],
          timestamp_static := timestamp_static s + 1,
          g_memory_tracker :=
            (g_memory_tracker s)
              \<lparr> blocks := (blocks (g_memory_tracker s))
                   [i := \<lparr> pointer = a, size_bytes = n,
                       filename = strncpy_terminated f (MAX_FILENAME_LENGTH - 1),
                       line_number = l, type = ty, status = MEMORY_STATUS_ALLOCATED,
                       timestamp = timestamp_static s + 1 \<rparr>],
                 current_block_count := current_block_count (g_memory_tracker s) + 1,
                 total_allocated_memory := total_allocated_memory (g_memory_tracker s) + n \<rparr> \<rparr>)"
proof -
  have "find_available_slot (g_memory_tracker s) = int i"
    using assms by (intro find_available_slot_first)
  with assms show ?thesis
    by (simp add: safe_memory_allocate_def c_malloc_def get_current_timestamp_def
        leD Let_def MemoryBlock_overwrite)
qed

lemma found_free_live:
  "memory \<noteq> NULL \<Longrightarrow> memory \<in> heap s \<Longrightarrow>
   found_free memory s i =
     Return ()
       (s\<lparr> heap := heap s - {memory},
          trace := trace s @ [Free memory],
          g_memory_tracker :=
            (g_memory_tracker s)
              \<lparr> blocks := (blocks (g_memory_tracker s))[i := zero_MemoryBlock],
                 current_block_count := current_block_count (g_memory_tracker s) - 1,
                 total_allocated_memory :=
                   total_allocated_memory (g_memory_tracker s)
                   - size_bytes (blocks (g_memory_tracker s) ! i) \<rparr> \<rparr>)"
  by (simp add: found_free_def c_free_def Let_def)

lemma found_free_dead:
  "memory \<noteq> NULL \<Longrightarrow> memory \<notin> heap s \<Longrightarrow>
   found_free memory s i = Undefined_free memory (freeing_at i s)"
  by (simp add: found_free_def c_free_def Let_def freeing_at_def)

lemma first_slot_or_none: "no_slot t p \<or> (\<exists>i. first_slot t p i)"
proof (cases "no_slot t p")
  case True
  then show ?thesis by simp
next
  case False
  then have "\<exists>j<MAX_TRACKED_BLOCKS. pointer (blocks t ! j) = p"
    by (simp add: no_slot_def)
  then show ?thesis
    unfolding first_slot_def
  proof -
    assume ex: "\<exists>j<MAX_TRACKED_BLOCKS. pointer (blocks t ! j) = p"
    let ?P = "\<lambda>j. j < MAX_TRACKED_BLOCKS \<and> pointer (blocks t ! j) = p"
    from ex have "\<exists>j. ?P j" by blast
    then have P: "?P (Least ?P)" by (rule LeastI_ex)
    have least: "\<forall>j<Least ?P. pointer (blocks t ! j) \<noteq> p"
    proof (intro allI impI)
      fix j assume lt: "j < Least ?P"
      then have "\<not> ?P j" by (rule not_less_Least)
      moreover from lt P have "j < MAX_TRACKED_BLOCKS" by simp
      ultimately show "pointer (blocks t ! j) \<noteq> p" by simp
    qed
    from P least show "no_slot t p \<or>
      (\<exists>i. i < MAX_TRACKED_BLOCKS \<and> pointer (blocks t ! i) = p \<and>
         (\<forall>j<i. pointer (blocks t ! j) \<noteq> p))"
      by blast
  qed
qed

lemma allocate_success_at:
  assumes "n \<noteq> 0"
    and "current_block_count (g_memory_tracker s) < of_nat MAX_TRACKED_BLOCKS"
    and "a \<noteq> NULL"
    and "first_slot (g_memory_tracker s) NULL i"
  shows "safe_memory_allocate n f l ty a s = Return a (allocate_at n f l ty a i s)"
  using assms unfolding first_slot_def allocate_at_def
  by (intro allocate_success) simp_all

lemma allocate_no_slot_at:
  assumes "n \<noteq> 0"
    and "current_block_count (g_memory_tracker s) < of_nat MAX_TRACKED_BLOCKS"
    and "a \<noteq> NULL"
    and "no_slot (g_memory_tracker s) NULL"
  shows "safe_memory_allocate n f l ty a s =
     Return NULL (s\<lparr> heap := heap s - {a}, trace := trace s @ [Malloc n a, Free a] \<rparr>)"
  using assms unfolding no_slot_def
  by (intro allocate_no_slot) simp_all

text \<open>Every call of the allocation returns, in one of two ways.\<close>

lemma allocate_cases:
  "(\<exists>s'. safe_memory_allocate n f l ty a s = Return NULL s' \<and>
         g_memory_tracker s' = g_memory_tracker s \<and>
         timestamp_static s' = timestamp_static s \<and>
         heap s - {a} \<subseteq> heap s' \<and> heap s' \<subseteq> heap s) \<or>
   (\<exists>i. n \<noteq> 0 \<and> current_block_count (g_memory_tracker s) < of_nat MAX_TRACKED_BLOCKS \<and>
        a \<noteq> NULL \<and> first_slot (g_memory_tracker s) NULL i \<and>
        safe_memory_allocate n f l ty a s = Return a (allocate_at n f l ty a i s))"
proof (cases "n = 0")
  case True
  then show ?thesis by (simp add: allocate_zero)
next
  case n: False
  show ?thesis
  proof (cases "of_nat MAX_TRACKED_BLOCKS \<le> current_block_count (g_memory_tracker s)")
    case True
    with n show ?thesis by (simp add: allocate_full)
  next
    case False
    then have c: "current_block_count (g_memory_tracker s) < of_nat MAX_TRACKED_BLOCKS"
      by simp
    show ?thesis
    proof (cases "a = NULL")
      case True
      with n c show ?thesis by (simp add: allocate_malloc_failed)
    next
      case a: False
      from first_slot_or_none [of "g_memory_tracker s" NULL] show ?thesis
      proof
        assume "no_slot (g_memory_tracker s) NULL"
        with n c a show ?thesis by (simp add: allocate_no_slot_at)
      next
        assume "\<exists>i. first_slot (g_memory_tracker s) NULL i"
        then obtain i where "first_slot (g_memory_tracker s) NULL i" ..
        with n c a show ?thesis
          by (intro disjI2 exI [of _ i]) (simp add: allocate_success_at)
      qed
    qed
  qed
qed

lemma free_null:
  "safe_memory_free NULL f l s =
     Return () (s\<lparr> trace := trace s @ [Stderr (Warning_freeing_null f l)] \<rparr>)"
  by (simp add: safe_memory_free_def fprintf_stderr_def)

lemma free_untracked:
  assumes "p \<noteq> NULL" and "no_slot (g_memory_tracker s) p"
  shows "safe_memory_free p f l s =
     (if p \<in> heap s then
        Return ()
          (s\<lparr> heap := heap s - {p},
             trace := trace s @ [Stderr (Warning_untracked_free f l), Free p] \<rparr>)
      else Undefined_free p (s\<lparr> trace := trace s @ [Stderr (Warning_untracked_free f l)] \<rparr>))"
proof -
  have "safe_memory_free_from p f l s 0 =
          c_free p (fprintf_stderr (Warning_untracked_free f l) s)"
    using assms(2) unfolding no_slot_def
    by (intro safe_memory_free_from_none) simp
  with assms(1) show ?thesis
    by (simp add: safe_memory_free_def c_free_def fprintf_stderr_def)
qed

lemma free_tracked:
  assumes "p \<noteq> NULL" and "first_slot (g_memory_tracker s) p i"
  shows "safe_memory_free p f l s =
     (if p \<in> heap s then Return () (free_at p i s)
      else Undefined_free p (freeing_at i s))"
proof -
  have "safe_memory_free_from p f l s 0 = found_free p s i"
    using assms(2) unfolding first_slot_def
    by (intro safe_memory_free_from_first) simp_all
  with assms(1) show ?thesis
    by (simp add: safe_memory_free_def found_free_live found_free_dead free_at_def)
qed

lemma free_cases:
  assumes "safe_memory_free p f l s = Return u s'"
  shows "(p = NULL \<and> s' = s\<lparr> trace := trace s @ [Stderr (Warning_freeing_null f l)] \<rparr>) \<or>
         (p \<noteq> NULL \<and> p \<in> heap s \<and> no_slot (g_memory_tracker s) p \<and>
            s' = s\<lparr> heap := heap s - {p},
                    trace := trace s @ [Stderr (Warning_untracked_free f l), Free p] \<rparr>) \<or>
         (\<exists>i. p \<noteq> NULL \<and> p \<in> heap s \<and> first_slot (g_memory_tracker s) p i \<and>
              s' = free_at p i s)"
proof (cases "p = NULL")
  case True
  with assms show ?thesis by (simp add: free_null)
next
  case p: False
  from first_slot_or_none [of "g_memory_tracker s" p] show ?thesis
  proof
    assume no: "no_slot (g_memory_tracker s) p"
    with p assms show ?thesis
      by (simp add: free_untracked split: if_splits)
  next
    assume "\<exists>i. first_slot (g_memory_tracker s) p i"
    then obtain i where i: "first_slot (g_memory_tracker s) p i" ..
    with p assms have "p \<in> heap s \<and> s' = free_at p i s"
      by (simp add: free_tracked split: if_splits)
    with p i show ?thesis by blast
  qed
qed

section \<open>Replacing one element of the table\<close>

lemma length_filter_update:
  "i < length xs \<Longrightarrow>
   length (filter P (xs[i := b])) + (if P (xs ! i) then 1 else 0) =
   length (filter P xs) + (if P b then 1 else 0)"
proof (induction xs arbitrary: i)
  case Nil
  then show ?case by simp
next
  case (Cons x xs)
  show ?case
  proof (cases i)
    case 0
    then show ?thesis by simp
  next
    case (Suc k)
    with Cons.prems have "k < length xs" by simp
    from Cons.IH [OF this] Suc show ?thesis by (simp split: if_splits)
  qed
qed

lemma sum_list_filter_update:
  fixes f :: "'a \<Rightarrow> 'b::comm_monoid_add"
  shows "i < length xs \<Longrightarrow>
   sum_list (map f (filter P (xs[i := b]))) + (if P (xs ! i) then f (xs ! i) else 0) =
   sum_list (map f (filter P xs)) + (if P b then f b else 0)"
proof (induction xs arbitrary: i)
  case Nil
  then show ?case by simp
next
  case (Cons x xs)
  show ?case
  proof (cases i)
    case 0
    then show ?thesis by (simp add: ac_simps)
  next
    case (Suc k)
    with Cons.prems have "k < length xs" by simp
    from Cons.IH [OF this] Suc show ?thesis
      by (simp add: ac_simps split: if_splits)
  qed
qed

lemma mset_filter_map_update:
  "i < length xs \<Longrightarrow>
   mset (map f (filter P (xs[i := b]))) + (if P (xs ! i) then {#f (xs ! i)#} else {#}) =
   mset (map f (filter P xs)) + (if P b then {#f b#} else {#})"
proof (induction xs arbitrary: i)
  case Nil
  then show ?case by simp
next
  case (Cons x xs)
  show ?case
  proof (cases i)
    case 0
    then show ?thesis by simp
  next
    case (Suc k)
    with Cons.prems have "k < length xs" by simp
    from Cons.IH [OF this] Suc show ?thesis
      by (auto split: if_splits)
  qed
qed

section \<open>What every reachable table satisfies\<close>

lemma not_occupied_zero [simp]: "\<not> occupied zero_MemoryBlock"
  by (simp add: occupied_def zero_MemoryBlock_def)

lemma tracker_wf_zero: "tracker_wf zero_MemoryTracker"
  by (simp add: tracker_wf_def zero_MemoryTracker_def)

lemma aggregates_consistent_zero: "aggregates_consistent zero_MemoryTracker"
  by (simp add: aggregates_consistent_def count_occupied_def sum_occupied_def
      zero_MemoryTracker_def)

lemma statuses_allocated_zero: "statuses_allocated zero_MemoryTracker"
  by (simp add: statuses_allocated_def zero_MemoryTracker_def zero_MemoryBlock_def
      list_all_iff)

lemma tracked_pointers_zero: "tracked_pointers zero_MemoryTracker = []"
  by (simp add: tracked_pointers_def zero_MemoryTracker_def)

lemma tracker_wf_allocate_at [simp]:
  "tracker_wf (g_memory_tracker (allocate_at n f l ty a i s)) = tracker_wf (g_memory_tracker s)"
  by (simp add: tracker_wf_def allocate_at_def)

lemma tracker_wf_free_at [simp]:
  "tracker_wf (g_memory_tracker (free_at p i s)) = tracker_wf (g_memory_tracker s)"
  by (simp add: tracker_wf_def free_at_def)

lemma count_occupied_bound: "tracker_wf t \<Longrightarrow> count_occupied t \<le> MAX_TRACKED_BLOCKS"
  unfolding tracker_wf_def count_occupied_def
  using length_filter_le [of occupied "blocks t"] by simp

lemma count_occupied_allocate_at:
  assumes "tracker_wf (g_memory_tracker s)" and "a \<noteq> NULL"
    and "first_slot (g_memory_tracker s) NULL i"
  shows "count_occupied (g_memory_tracker (allocate_at n f l ty a i s)) =
         Suc (count_occupied (g_memory_tracker s))"
proof -
  from assms have i: "i < length (blocks (g_memory_tracker s))"
    and free: "\<not> occupied (blocks (g_memory_tracker s) ! i)"
    by (simp_all add: tracker_wf_def first_slot_def occupied_def)
  from length_filter_update [OF i, of occupied] free assms(2) show ?thesis
    by (simp add: count_occupied_def allocate_at_def occupied_def)
qed

lemma sum_occupied_allocate_at:
  assumes "tracker_wf (g_memory_tracker s)" and "a \<noteq> NULL"
    and "first_slot (g_memory_tracker s) NULL i"
  shows "sum_occupied (g_memory_tracker (allocate_at n f l ty a i s)) =
         sum_occupied (g_memory_tracker s) + n"
proof -
  from assms have i: "i < length (blocks (g_memory_tracker s))"
    and free: "\<not> occupied (blocks (g_memory_tracker s) ! i)"
    by (simp_all add: tracker_wf_def first_slot_def occupied_def)
  from sum_list_filter_update [OF i, of size_bytes occupied] free assms(2) show ?thesis
    by (simp add: sum_occupied_def allocate_at_def occupied_def)
qed

lemma count_occupied_free_at:
  assumes "tracker_wf (g_memory_tracker s)" and "p \<noteq> NULL"
    and "first_slot (g_memory_tracker s) p i"
  shows "Suc (count_occupied (g_memory_tracker (free_at p i s))) =
         count_occupied (g_memory_tracker s)"
proof -
  from assms have i: "i < length (blocks (g_memory_tracker s))"
    and occ: "occupied (blocks (g_memory_tracker s) ! i)"
    by (simp_all add: tracker_wf_def first_slot_def occupied_def)
  from length_filter_update [OF i, of occupied zero_MemoryBlock] occ show ?thesis
    by (simp add: count_occupied_def free_at_def)
qed

lemma sum_occupied_free_at:
  assumes "tracker_wf (g_memory_tracker s)" and "p \<noteq> NULL"
    and "first_slot (g_memory_tracker s) p i"
  shows "sum_occupied (g_memory_tracker (free_at p i s)) =
         sum_occupied (g_memory_tracker s) - size_bytes (blocks (g_memory_tracker s) ! i)"
proof -
  from assms have i: "i < length (blocks (g_memory_tracker s))"
    and occ: "occupied (blocks (g_memory_tracker s) ! i)"
    by (simp_all add: tracker_wf_def first_slot_def occupied_def)
  from sum_list_filter_update [OF i, of size_bytes occupied zero_MemoryBlock] occ
  have "sum_occupied (g_memory_tracker (free_at p i s))
          + size_bytes (blocks (g_memory_tracker s) ! i) =
        sum_occupied (g_memory_tracker s)"
    by (simp add: sum_occupied_def free_at_def)
  then show ?thesis by (simp add: algebra_simps)
qed

lemma unat_count_succ:
  fixes c :: size_t
  assumes "c < of_nat MAX_TRACKED_BLOCKS"
  shows "unat (c + 1) = Suc (unat c)"
proof -
  from assms have "unat c < 1000"
    by (simp add: MAX_TRACKED_BLOCKS_def word_less_nat_alt)
  then show ?thesis
    by (simp add: unat_word_ariths)
qed

lemma unat_count_pred:
  fixes c :: size_t
  assumes "unat c = Suc k"
  shows "unat (c - 1) = k"
proof -
  from assms have "c \<noteq> 0" by auto
  then have "unat (c - 1) = unat c - 1" by (rule unat_minus_one)
  with assms show ?thesis by simp
qed

lemma aggregates_consistent_allocate_at:
  assumes "tracker_wf (g_memory_tracker s)" and "aggregates_consistent (g_memory_tracker s)"
    and "current_block_count (g_memory_tracker s) < of_nat MAX_TRACKED_BLOCKS"
    and "a \<noteq> NULL" and "first_slot (g_memory_tracker s) NULL i"
  shows "aggregates_consistent (g_memory_tracker (allocate_at n f l ty a i s))"
proof -
  have agg: "current_block_count (g_memory_tracker (allocate_at n f l ty a i s)) =
               current_block_count (g_memory_tracker s) + 1"
    "total_allocated_memory (g_memory_tracker (allocate_at n f l ty a i s)) =
               total_allocated_memory (g_memory_tracker s) + n"
    by (simp_all add: allocate_at_def)
  show ?thesis
    unfolding aggregates_consistent_def agg
    using assms
    by (simp add: count_occupied_allocate_at sum_occupied_allocate_at unat_count_succ
        aggregates_consistent_def)
qed

lemma aggregates_consistent_free_at:
  assumes "tracker_wf (g_memory_tracker s)" and "aggregates_consistent (g_memory_tracker s)"
    and "p \<noteq> NULL" and "first_slot (g_memory_tracker s) p i"
  shows "aggregates_consistent (g_memory_tracker (free_at p i s))"
proof -
  have agg: "current_block_count (g_memory_tracker (free_at p i s)) =
               current_block_count (g_memory_tracker s) - 1"
    "total_allocated_memory (g_memory_tracker (free_at p i s)) =
               total_allocated_memory (g_memory_tracker s)
               - size_bytes (blocks (g_memory_tracker s) ! i)"
    by (simp_all add: free_at_def)
  from assms have "unat (current_block_count (g_memory_tracker s)) =
      Suc (count_occupied (g_memory_tracker (free_at p i s)))"
    by (simp add: count_occupied_free_at aggregates_consistent_def)
  then have "unat (current_block_count (g_memory_tracker s) - 1) =
      count_occupied (g_memory_tracker (free_at p i s))"
    by (rule unat_count_pred)
  with assms show ?thesis
    unfolding aggregates_consistent_def agg
    by (simp add: sum_occupied_free_at aggregates_consistent_def)
qed

lemma list_all_update:
  "list_all P xs \<Longrightarrow> P b \<Longrightarrow> list_all P (xs[i := b])"
  unfolding list_all_iff
  using set_update_subset_insert [of xs i b] by auto

lemma statuses_allocated_allocate_at:
  "statuses_allocated (g_memory_tracker s) \<Longrightarrow>
   statuses_allocated (g_memory_tracker (allocate_at n f l ty a i s))"
  by (simp add: statuses_allocated_def allocate_at_def list_all_update)

lemma statuses_allocated_free_at:
  "statuses_allocated (g_memory_tracker s) \<Longrightarrow>
   statuses_allocated (g_memory_tracker (free_at p i s))"
  by (simp add: statuses_allocated_def free_at_def list_all_update zero_MemoryBlock_def)

section \<open>Runs keep the table consistent\<close>

lemma table_invariant_zero: "table_invariant zero_MemoryTracker"
  by (simp add: table_invariant_def tracker_wf_zero aggregates_consistent_zero
      statuses_allocated_zero)

lemma table_invariant_allocate:
  assumes "table_invariant (g_memory_tracker s)"
    and "safe_memory_allocate n f l ty a s = Return p s'"
  shows "table_invariant (g_memory_tracker s')"
  using allocate_cases [of n f l ty a s]
proof (elim disjE exE conjE)
  fix s''
  assume "safe_memory_allocate n f l ty a s = Return NULL s''"
    and "g_memory_tracker s'' = g_memory_tracker s"
  with assms show ?thesis by simp
next
  fix i
  assume c: "current_block_count (g_memory_tracker s) < of_nat MAX_TRACKED_BLOCKS"
    and a: "a \<noteq> NULL" and i: "first_slot (g_memory_tracker s) NULL i"
    and eq: "safe_memory_allocate n f l ty a s = Return a (allocate_at n f l ty a i s)"
  from eq assms(2) have s': "s' = allocate_at n f l ty a i s" by simp
  from assms(1) c a i show ?thesis
    unfolding s'
    by (simp add: table_invariant_def aggregates_consistent_allocate_at
        statuses_allocated_allocate_at)
qed

lemma table_invariant_free:
  assumes "table_invariant (g_memory_tracker s)"
    and "safe_memory_free p f l s = Return u s'"
  shows "table_invariant (g_memory_tracker s')"
  using free_cases [OF assms(2)]
proof (elim disjE exE conjE)
  assume "s' = s\<lparr> trace := trace s @ [Stderr (Warning_freeing_null f l)] \<rparr>"
  with assms(1) show ?thesis by simp
next
  assume "s' = s\<lparr> heap := heap s - {p},
                    trace := trace s @ [Stderr (Warning_untracked_free f l), Free p] \<rparr>"
  with assms(1) show ?thesis by simp
next
  fix i
  assume "p \<noteq> NULL" and "first_slot (g_memory_tracker s) p i" and "s' = free_at p i s"
  with assms(1) show ?thesis
    by (simp add: table_invariant_def aggregates_consistent_free_at
        statuses_allocated_free_at)
qed

lemma table_invariant_perform:
  assumes "table_invariant (g_memory_tracker s)" and "perform x s = Return u s'"
  shows "table_invariant (g_memory_tracker s')"
proof (cases x)
  case Op_init
  with assms(2) show ?thesis
    by (auto simp: memory_manager_init_def table_invariant_zero)
next
  case (Op_allocate n f l ty a)
  with assms(2) obtain p where "safe_memory_allocate n f l ty a s = Return p s'"
    by (auto split: outcome.splits)
  with assms(1) show ?thesis by (rule table_invariant_allocate)
next
  case (Op_free p f l)
  with assms(2) have "safe_memory_free p f l s = Return u s'" by simp
  with assms(1) show ?thesis by (rule table_invariant_free)
next
  case Op_report
  with assms show ?thesis
    by (auto simp: generate_memory_report_eq)
qed

lemma table_invariant_run:
  "table_invariant (g_memory_tracker s) \<Longrightarrow> run xs s = Return u s' \<Longrightarrow>
   table_invariant (g_memory_tracker s')"
proof (induction xs arbitrary: s)
  case Nil
  then show ?case by simp
next
  case (Cons x xs)
  from Cons.prems(2) obtain v s1 where step: "perform x s = Return v s1"
    and rest: "run xs s1 = Return u s'"
    by (auto split: outcome.splits)
  from Cons.prems(1) step have "table_invariant (g_memory_tracker s1)"
    by (rule table_invariant_perform)
  from Cons.IH [OF this rest] show ?case .
qed

lemma table_invariant_program_start: "table_invariant (g_memory_tracker (program_start h))"
  by (simp add: program_start_def table_invariant_zero)

section \<open>The tracked handles\<close>

lemma tracked_pointers_allocate_at:
  assumes "tracker_wf (g_memory_tracker s)" and "a \<noteq> NULL"
    and "first_slot (g_memory_tracker s) NULL i"
  shows "mset (tracked_pointers (g_memory_tracker (allocate_at n f l ty a i s))) =
         add_mset a (mset (tracked_pointers (g_memory_tracker s)))"
proof -
  from assms have i: "i < length (blocks (g_memory_tracker s))"
    and free: "\<not> occupied (blocks (g_memory_tracker s) ! i)"
    by (simp_all add: tracker_wf_def first_slot_def occupied_def)
  from mset_filter_map_update [OF i, of pointer occupied] free assms(2) show ?thesis
    by (simp add: tracked_pointers_def allocate_at_def occupied_def)
qed

lemma tracked_pointers_free_at:
  assumes "tracker_wf (g_memory_tracker s)" and "p \<noteq> NULL"
    and "first_slot (g_memory_tracker s) p i"
  shows "add_mset p (mset (tracked_pointers (g_memory_tracker (free_at p i s)))) =
         mset (tracked_pointers (g_memory_tracker s))"
proof -
  from assms have i: "i < length (blocks (g_memory_tracker s))"
    and occ: "occupied (blocks (g_memory_tracker s) ! i)"
    and p: "pointer (blocks (g_memory_tracker s) ! i) = p"
    by (simp_all add: tracker_wf_def first_slot_def occupied_def)
  from mset_filter_map_update [OF i, of pointer occupied zero_MemoryBlock] occ p show ?thesis
    by (simp add: tracked_pointers_def free_at_def)
qed

lemma tracked_pointers_not_null: "NULL \<notin> set (tracked_pointers t)"
  by (auto simp: tracked_pointers_def occupied_def)

lemma no_slot_not_tracked:
  assumes "tracker_wf t" and "no_slot t p"
  shows "p \<notin> set (map pointer (blocks t))"
proof
  assume "p \<in> set (map pointer (blocks t))"
  then obtain j where "j < length (blocks t)" and "pointer (blocks t ! j) = p"
    by (auto simp: in_set_conv_nth)
  with assms show False
    by (simp add: tracker_wf_def no_slot_def)
qed

lemma first_slot_tracked:
  assumes "tracker_wf t" and "first_slot t p i"
  shows "p \<in> set (map pointer (blocks t))"
proof -
  from assms have "i < length (blocks t)" and "pointer (blocks t ! i) = p"
    by (simp_all add: tracker_wf_def first_slot_def)
  then show ?thesis
    using nth_mem [of i "blocks t"] by force
qed

lemma tracked_pointers_subset:
  "set (tracked_pointers t) \<subseteq> set (map pointer (blocks t))"
  by (auto simp: tracked_pointers_def)

lemma tracked_live_allocate_at:
  assumes "tracker_wf (g_memory_tracker s)" and "tracked_live s"
    and "a \<noteq> NULL" and "a \<notin> heap s" and "first_slot (g_memory_tracker s) NULL i"
  shows "tracked_live (allocate_at n f l ty a i s)"
proof -
  let ?ys = "tracked_pointers (g_memory_tracker s)"
  let ?ys' = "tracked_pointers (g_memory_tracker (allocate_at n f l ty a i s))"
  have m: "mset ?ys' = mset (a # ?ys)"
    using assms(1,3,5) by (simp add: tracked_pointers_allocate_at)
  from assms(2) have sub: "set ?ys \<subseteq> heap s" and d: "distinct ?ys"
    by (auto simp: tracked_live_def list_all_iff)
  from sub assms(4) have "a \<notin> set ?ys" by auto
  with d have "distinct (a # ?ys)" by simp
  with mset_eq_imp_distinct_iff [OF m] have d': "distinct ?ys'" by simp
  from m have "set ?ys' = set (a # ?ys)" by (rule mset_eq_setD)
  with sub have sub': "set ?ys' \<subseteq> insert a (heap s)" by auto
  have h: "heap (allocate_at n f l ty a i s) = insert a (heap s)"
    by (simp add: allocate_at_def)
  from sub' d' show ?thesis
    unfolding tracked_live_def list_all_iff h by auto
qed

lemma tracked_live_free_at:
  assumes "tracker_wf (g_memory_tracker s)" and "tracked_live s"
    and "p \<noteq> NULL" and "first_slot (g_memory_tracker s) p i"
  shows "tracked_live (free_at p i s)"
proof -
  let ?ys = "tracked_pointers (g_memory_tracker s)"
  let ?ys' = "tracked_pointers (g_memory_tracker (free_at p i s))"
  have m: "mset (p # ?ys') = mset ?ys"
    using assms(1,3,4) by (simp add: tracked_pointers_free_at)
  from assms(2) have sub: "set ?ys \<subseteq> heap s" and d: "distinct ?ys"
    by (auto simp: tracked_live_def list_all_iff)
  from mset_eq_imp_distinct_iff [OF m] d have "distinct (p # ?ys')" by simp
  then have notin: "p \<notin> set ?ys'" and d': "distinct ?ys'" by simp_all
  from m have "set (p # ?ys') = set ?ys" by (rule mset_eq_setD)
  with sub have "set ?ys' \<subseteq> heap s" by auto
  with notin have sub': "set ?ys' \<subseteq> heap s - {p}" by auto
  have h: "heap (free_at p i s) = heap s - {p}"
    by (simp add: free_at_def)
  from sub' d' show ?thesis
    unfolding tracked_live_def list_all_iff h by auto
qed

lemma tracked_live_same_table:
  assumes "tracked_live s" and "g_memory_tracker s' = g_memory_tracker s"
    and "heap s - {p} \<subseteq> heap s'" and "p \<notin> set (tracked_pointers (g_memory_tracker s))"
  shows "tracked_live s'"
  using assms unfolding tracked_live_def list_all_iff by auto

lemma tracked_live_init: "tracked_live (memory_manager_init s)"
  by (simp add: memory_manager_init_def tracked_live_def tracked_pointers_zero)

lemma tracked_live_report: "tracked_live s \<Longrightarrow> tracked_live (generate_memory_report s)"
  by (simp add: generate_memory_report_eq tracked_live_def)

lemma fresh_not_tracked:
  assumes "tracked_live s" and "a = NULL \<or> a \<notin> heap s"
  shows "a \<notin> set (tracked_pointers (g_memory_tracker s))"
proof
  assume in_set: "a \<in> set (tracked_pointers (g_memory_tracker s))"
  with tracked_pointers_not_null [of "g_memory_tracker s"] have "a \<noteq> NULL"
    by (cases "a = NULL") simp_all
  moreover from assms(1) in_set have "a \<in> heap s"
    by (simp add: tracked_live_def list_all_iff)
  ultimately show False using assms(2) by simp
qed

lemma tracked_live_allocate:
  assumes "tracker_wf (g_memory_tracker s)" and "tracked_live s"
    and "a = NULL \<or> a \<notin> heap s"
    and ret: "safe_memory_allocate n f l ty a s = Return q s'"
  shows "tracked_live s'"
  using allocate_cases [of n f l ty a s]
proof (elim disjE exE conjE)
  fix s''
  assume eq: "safe_memory_allocate n f l ty a s = Return NULL s''"
    and t: "g_memory_tracker s'' = g_memory_tracker s"
    and h: "heap s - {a} \<subseteq> heap s''"
  from eq ret have s'': "s'' = s'" by simp
  from assms(2,3) have nt: "a \<notin> set (tracked_pointers (g_memory_tracker s))"
    by (rule fresh_not_tracked)
  from t h show ?thesis
    unfolding s'' by (rule tracked_live_same_table [OF assms(2) _ _ nt])
next
  fix i
  assume a: "a \<noteq> NULL" and i: "first_slot (g_memory_tracker s) NULL i"
    and eq: "safe_memory_allocate n f l ty a s = Return a (allocate_at n f l ty a i s)"
  from eq ret have s': "s' = allocate_at n f l ty a i s" by simp
  from assms(3) a have "a \<notin> heap s" by simp
  with assms(1,2) a show ?thesis
    unfolding s' using i by (rule tracked_live_allocate_at)
qed

lemma tracked_live_free:
  assumes wf: "tracker_wf (g_memory_tracker s)" and live: "tracked_live s"
    and ret: "safe_memory_free p f l s = Return u s'"
  shows "tracked_live s'"
  using free_cases [OF ret]
proof (elim disjE exE conjE)
  assume "s' = s\<lparr> trace := trace s @ [Stderr (Warning_freeing_null f l)] \<rparr>"
  with live show ?thesis by (simp add: tracked_live_def)
next
  assume no: "no_slot (g_memory_tracker s) p"
    and s': "s' = s\<lparr> heap := heap s - {p},
                  trace := trace s @ [Stderr (Warning_untracked_free f l), Free p] \<rparr>"
  from no_slot_not_tracked [OF wf no] tracked_pointers_subset [of "g_memory_tracker s"]
  have nt: "p \<notin> set (tracked_pointers (g_memory_tracker s))" by (rule contra_subsetD [rotated])
  show ?thesis
    unfolding s' by (rule tracked_live_same_table [OF live _ _ nt]) simp_all
next
  fix i
  assume p: "p \<noteq> NULL" and i: "first_slot (g_memory_tracker s) p i"
    and s': "s' = free_at p i s"
  from wf live p i show ?thesis
    unfolding s' by (rule tracked_live_free_at)
qed

lemma tracked_live_perform:
  assumes "table_invariant (g_memory_tracker s)" and "tracked_live s"
    and "allocator_sound [x] s" and "perform x s = Return u s'"
  shows "tracked_live s'"
proof (cases x)
  case Op_init
  with assms(4) have "s' = memory_manager_init s" by simp
  then show ?thesis by (simp add: tracked_live_init)
next
  case (Op_allocate n f l ty a)
  with assms(3) have fresh: "a = NULL \<or> a \<notin> heap s" by simp
  from assms(1) have wf: "tracker_wf (g_memory_tracker s)"
    by (simp add: table_invariant_def)
  from Op_allocate assms(4) obtain q where
    ret: "safe_memory_allocate n f l ty a s = Return q s'"
    by (cases "safe_memory_allocate n f l ty a s") simp_all
  from wf assms(2) fresh ret show ?thesis by (rule tracked_live_allocate)
next
  case (Op_free p f l)
  from assms(1) have wf: "tracker_wf (g_memory_tracker s)"
    by (simp add: table_invariant_def)
  from Op_free assms(4) have "safe_memory_free p f l s = Return u s'" by simp
  with wf assms(2) show ?thesis by (rule tracked_live_free)
next
  case Op_report
  with assms(4) have "s' = generate_memory_report s" by simp
  with assms(2) show ?thesis by (simp add: tracked_live_report)
qed

lemma tracked_live_run:
  "table_invariant (g_memory_tracker s) \<Longrightarrow> tracked_live s \<Longrightarrow> allocator_sound xs s \<Longrightarrow>
   run xs s = Return u s' \<Longrightarrow> tracked_live s'"
proof (induction xs arbitrary: s)
  case Nil
  then show ?case by simp
next
  case (Cons x xs)
  from Cons.prems(4) obtain v s1 where step: "perform x s = Return v s1"
    and rest: "run xs s1 = Return u s'"
    by (cases "perform x s") simp_all
  from Cons.prems(3) step have sound1: "allocator_sound [x] s" and sound: "allocator_sound xs s1"
    by simp_all
  from Cons.prems(1) step have inv: "table_invariant (g_memory_tracker s1)"
    by (rule table_invariant_perform)
  from Cons.prems(1,2) sound1 step have "tracked_live s1"
    by (rule tracked_live_perform)
  from Cons.IH [OF inv this sound rest] show ?case .
qed

lemma tracked_live_program_start: "tracked_live (program_start h)"
  by (simp add: program_start_def tracked_live_def tracked_pointers_zero)

section \<open>Zero-size requests\<close>

text \<open>
  C4. A call of the allocation with size 0, in any state of the tracker and whatever the
  other arguments are, writes the warning \<^verbatim>\<open>WARNING: Zero-byte allocation\<close> to
  \<^verbatim>\<open>stderr\<close> and returns \<open>NULL\<close>. The state it returns differs from the one it got
  in that one line of output only: the table, \<^verbatim>\<open>current_block_count\<close>,
  \<^verbatim>\<open>total_allocated_memory\<close>, the timestamp counter and the heap are the same, and
  \<^verbatim>\<open>malloc\<close> is not called.
\<close>

theorem zero_size_allocation_rejected:
  "safe_memory_allocate 0 f l ty answer s =
     Return NULL (s\<lparr> trace := trace s @ [Stderr Warning_zero_byte_allocation] \<rparr>)"
  by (rule allocate_zero)

section \<open>The sample states, evaluated\<close>

lemma demo_blocks:
  "blocks (g_memory_tracker (program_start {})) = replicate 1000 zero_MemoryBlock"
  "blocks (g_memory_tracker demo_1) =
     (replicate 1000 zero_MemoryBlock)
       [0 := \<lparr> pointer = 0x1000, size_bytes = 20, filename = ''main.c'', line_number = 24,
              type = MEMORY_TYPE_DYNAMIC, status = MEMORY_STATUS_ALLOCATED, timestamp = 1 \<rparr>]"
  "blocks (g_memory_tracker demo_2) =
     (replicate 1000 zero_MemoryBlock)
       [0 := \<lparr> pointer = 0x1000, size_bytes = 20, filename = ''main.c'', line_number = 24,
              type = MEMORY_TYPE_DYNAMIC, status = MEMORY_STATUS_ALLOCATED, timestamp = 1 \<rparr>,
        1 := \<lparr> pointer = 0x2000, size_bytes = 50, filename = ''main.c'', line_number = 35,
              type = MEMORY_TYPE_TEMPORARY, status = MEMORY_STATUS_ALLOCATED, timestamp = 2 \<rparr>]"
  "blocks (g_memory_tracker demo_3) =
     (replicate 1000 zero_MemoryBlock)
       [0 := \<lparr> pointer = 0x1000, size_bytes = 20, filename = ''main.c'', line_number = 24,
              type = MEMORY_TYPE_DYNAMIC, status = MEMORY_STATUS_ALLOCATED, timestamp = 1 \<rparr>,
        1 := \<lparr> pointer = 0x2000, size_bytes = 50, filename = ''main.c'', line_number = 35,
              type = MEMORY_TYPE_TEMPORARY, status = MEMORY_STATUS_ALLOCATED, timestamp = 2 \<rparr>,
        0 := zero_MemoryBlock]"
  "blocks (g_memory_tracker demo_4) =
     (replicate 1000 zero_MemoryBlock)
       [0 := \<lparr> pointer = 0x1000, size_bytes = 20, filename = ''main.c'', line_number = 24,
              type = MEMORY_TYPE_DYNAMIC, status = MEMORY_STATUS_ALLOCATED, timestamp = 1 \<rparr>,
        1 := \<lparr> pointer = 0x2000, size_bytes = 50, filename = ''main.c'', line_number = 35,
              type = MEMORY_TYPE_TEMPORARY, status = MEMORY_STATUS_ALLOCATED, timestamp = 2 \<rparr>,
        0 := zero_MemoryBlock, 1 := zero_MemoryBlock]"
  by (simp_all add: demo_4_def demo_3_def demo_2_def demo_1_def allocate_at_def free_at_def
      program_start_def zero_MemoryTracker_def MAX_TRACKED_BLOCKS_def MAX_FILENAME_LENGTH_def
      strncpy_terminated_def)

lemma demo_counters:
  "current_block_count (g_memory_tracker (program_start {})) = 0"
  "total_allocated_memory (g_memory_tracker (program_start {})) = 0"
  "current_block_count (g_memory_tracker demo_1) = 1"
  "total_allocated_memory (g_memory_tracker demo_1) = 20"
  "current_block_count (g_memory_tracker demo_2) = 2"
  "total_allocated_memory (g_memory_tracker demo_2) = 70"
  "current_block_count (g_memory_tracker demo_3) = 1"
  "total_allocated_memory (g_memory_tracker demo_3) = 50"
  "current_block_count (g_memory_tracker demo_4) = 0"
  "total_allocated_memory (g_memory_tracker demo_4) = 0"
  by (simp_all add: demo_4_def demo_3_def demo_2_def demo_1_def allocate_at_def free_at_def
      program_start_def zero_MemoryTracker_def MAX_TRACKED_BLOCKS_def)

lemma demo_heap:
  "heap (program_start {}) = {}"
  "heap demo_1 = {0x1000}"
  "heap demo_2 = {0x1000, 0x2000}"
  "heap demo_3 = {0x2000}"
  "heap demo_4 = {}"
  by (auto simp: demo_4_def demo_3_def demo_2_def demo_1_def allocate_at_def free_at_def
      program_start_def)

lemma demo_first_slots:
  "first_slot (g_memory_tracker (program_start {})) NULL 0"
  "first_slot (g_memory_tracker demo_1) NULL 1"
  "first_slot (g_memory_tracker demo_2) 0x1000 0"
  "first_slot (g_memory_tracker demo_3) 0x2000 1"
  "no_slot (g_memory_tracker demo_3) 0x1000"
  by (simp_all add: first_slot_def no_slot_def demo_blocks MAX_TRACKED_BLOCKS_def
      zero_MemoryBlock_def nth_list_update less_Suc_eq)

lemma demo_allocate_1:
  "safe_memory_allocate 20 ''main.c'' 24 MEMORY_TYPE_DYNAMIC 0x1000 (program_start {}) =
     Return 0x1000 demo_1"
  unfolding demo_1_def
  by (rule allocate_success_at [OF _ _ _ demo_first_slots(1)])
    (simp_all add: demo_counters MAX_TRACKED_BLOCKS_def)

lemma demo_allocate_2:
  "safe_memory_allocate 50 ''main.c'' 35 MEMORY_TYPE_TEMPORARY 0x2000 demo_1 =
     Return 0x2000 demo_2"
  unfolding demo_2_def
  by (rule allocate_success_at [OF _ _ _ demo_first_slots(2)])
    (simp_all add: demo_counters MAX_TRACKED_BLOCKS_def)

lemma demo_free_1: "safe_memory_free 0x1000 ''main.c'' 50 demo_2 = Return () demo_3"
  by (simp add: free_tracked [OF _ demo_first_slots(3)] demo_heap demo_3_def)

lemma demo_free_2: "safe_memory_free 0x2000 ''main.c'' 51 demo_3 = Return () demo_4"
  by (simp add: free_tracked [OF _ demo_first_slots(4)] demo_heap demo_4_def)

lemma demo_free_again:
  "safe_memory_free 0x1000 ''main.c'' 52 demo_3 =
     Undefined_free 0x1000
       (demo_3\<lparr> trace := trace demo_3 @ [Stderr (Warning_untracked_free ''main.c'' 52)] \<rparr>)"
  by (simp add: free_untracked [OF _ demo_first_slots(5)] demo_heap)

lemma unat_sum_list_mod:
  fixes ws :: "size_t list"
  shows "unat (sum_list ws) = sum_list (map unat ws) mod 2 ^ 64"
proof (induction ws)
  case Nil
  show ?case by simp
next
  case (Cons w ws)
  have "unat (w + sum_list ws) = (unat w + unat (sum_list ws)) mod 2 ^ 64"
    by (simp add: unat_word_ariths)
  also have "\<dots> = (unat w + sum_list (map unat ws) mod 2 ^ 64) mod 2 ^ 64"
    by (simp only: Cons.IH)
  also have "\<dots> = (unat w + sum_list (map unat ws)) mod 2 ^ 64"
    by (rule mod_add_right_eq)
  finally show ?case by simp
qed

lemma replicate_1000: "replicate 1000 x = x # x # replicate 998 x"
proof -
  have "(1000::nat) = Suc (Suc 998)" by simp
  then show ?thesis by (simp only: replicate.simps)
qed

lemma demo_run_3:
  "run [Op_init,
        Op_allocate 20 ''main.c'' 24 MEMORY_TYPE_DYNAMIC 0x1000,
        Op_allocate 50 ''main.c'' 35 MEMORY_TYPE_TEMPORARY 0x2000,
        Op_free 0x1000 ''main.c'' 50] (program_start {}) = Return () demo_3"
proof -
  have init: "memory_manager_init (program_start {}) = program_start {}"
    by (simp add: memory_manager_init_def program_start_def)
  show ?thesis
    by (simp add: init demo_allocate_1 demo_allocate_2 demo_free_1)
qed

section \<open>The counters and the table\<close>

text \<open>
  C1. Take any sequence of calls of \<^verbatim>\<open>memory_manager_init\<close>,
  \<^verbatim>\<open>safe_memory_allocate\<close>, \<^verbatim>\<open>safe_memory_free\<close> (and
  \<^verbatim>\<open>generate_memory_report\<close>) from the start of the program, with any arguments and any
  answers of \<^verbatim>\<open>malloc\<close>. If the calls return, then in the state after the last one
  (so after each one, a prefix of a sequence being a sequence) the table has its 1000 slots,
  \<^verbatim>\<open>current_block_count\<close> is the number of slots whose pointer is not \<open>NULL\<close>, and
  \<^verbatim>\<open>total_allocated_memory\<close> is the sum of the sizes of those slots. The counter and
  the sizes are \<^verbatim>\<open>size_t\<close> values and the sum is taken in \<^verbatim>\<open>size_t\<close>; whenever
  the sum of the sizes as natural numbers fits in 64 bits, as it does for blocks that lie
  side by side in one address space, the counter is that natural number.
\<close>

theorem aggregates_recomputed_from_table:
  assumes "run xs (program_start h) = Return u s"
  shows "length (blocks (g_memory_tracker s)) = MAX_TRACKED_BLOCKS \<and>
         unat (current_block_count (g_memory_tracker s)) =
           length (filter occupied (blocks (g_memory_tracker s))) \<and>
         total_allocated_memory (g_memory_tracker s) =
           sum_list (map size_bytes (filter occupied (blocks (g_memory_tracker s)))) \<and>
         (sum_list (map (\<lambda>b. unat (size_bytes b)) (filter occupied (blocks (g_memory_tracker s))))
            < 2 ^ 64 \<longrightarrow>
          unat (total_allocated_memory (g_memory_tracker s)) =
            sum_list (map (\<lambda>b. unat (size_bytes b))
              (filter occupied (blocks (g_memory_tracker s)))))"
proof -
  let ?t = "g_memory_tracker s"
  from table_invariant_program_start assms have inv: "table_invariant ?t"
    by (rule table_invariant_run)
  then have wf: "length (blocks ?t) = MAX_TRACKED_BLOCKS"
    and cnt: "unat (current_block_count ?t) = length (filter occupied (blocks ?t))"
    and tot: "total_allocated_memory ?t = sum_list (map size_bytes (filter occupied (blocks ?t)))"
    by (simp_all add: table_invariant_def tracker_wf_def aggregates_consistent_def
        count_occupied_def sum_occupied_def)
  have "unat (total_allocated_memory ?t) =
          sum_list (map unat (map size_bytes (filter occupied (blocks ?t)))) mod 2 ^ 64"
    unfolding tot by (rule unat_sum_list_mod)
  then have nat_sum: "unat (total_allocated_memory ?t) =
          sum_list (map (\<lambda>b. unat (size_bytes b)) (filter occupied (blocks ?t))) mod 2 ^ 64"
    by (simp add: comp_def)
  from wf cnt tot nat_sum show ?thesis by simp
qed

theorem aggregates_recomputed_from_table_witness:
  "run [Op_init,
        Op_allocate 20 ''main.c'' 24 MEMORY_TYPE_DYNAMIC 0x1000,
        Op_allocate 50 ''main.c'' 35 MEMORY_TYPE_TEMPORARY 0x2000,
        Op_free 0x1000 ''main.c'' 50] (program_start {}) = Return () demo_3 \<and>
   current_block_count (g_memory_tracker demo_3) = 1 \<and>
   length (filter occupied (blocks (g_memory_tracker demo_3))) = 1 \<and>
   total_allocated_memory (g_memory_tracker demo_3) = 50 \<and>
   sum_list (map size_bytes (filter occupied (blocks (g_memory_tracker demo_3)))) = 50 \<and>
   sum_list (map (\<lambda>b. unat (size_bytes b)) (filter occupied (blocks (g_memory_tracker demo_3))))
     = 50 \<and>
   unat (total_allocated_memory (g_memory_tracker demo_3)) = 50"
proof -
  note th = aggregates_recomputed_from_table [OF demo_run_3]
  have c: "current_block_count (g_memory_tracker demo_3) = 1"
    and t: "total_allocated_memory (g_memory_tracker demo_3) = 50"
    by (simp_all add: demo_counters)
  from th c have len: "length (filter occupied (blocks (g_memory_tracker demo_3))) = 1"
    by simp
  from th t have sum: "sum_list (map size_bytes (filter occupied (blocks (g_memory_tracker demo_3)))) = 50"
    by simp
  have fil: "filter occupied (blocks (g_memory_tracker demo_3)) =
     [\<lparr> pointer = 0x2000, size_bytes = 50, filename = ''main.c'', line_number = 35,
        type = MEMORY_TYPE_TEMPORARY, status = MEMORY_STATUS_ALLOCATED, timestamp = 2 \<rparr>]"
    by (simp add: demo_blocks replicate_1000 occupied_def zero_MemoryBlock_def)
  have nat_sum: "sum_list (map (\<lambda>b. unat (size_bytes b))
      (filter occupied (blocks (g_memory_tracker demo_3)))) = 50"
    unfolding fil by simp
  note imp = th [THEN conjunct2, THEN conjunct2, THEN conjunct2, rule_format]
  have "unat (total_allocated_memory (g_memory_tracker demo_3)) =
      sum_list (map (\<lambda>b. unat (size_bytes b))
        (filter occupied (blocks (g_memory_tracker demo_3))))"
    by (rule imp) (simp add: nat_sum)
  then have u: "unat (total_allocated_memory (g_memory_tracker demo_3)) = 50"
    by (simp only: nat_sum)
  from demo_run_3 c t len sum nat_sum u show ?thesis by simp
qed

section \<open>The statuses in the table\<close>

lemma demo_run_4:
  "run [Op_init,
        Op_allocate 20 ''main.c'' 24 MEMORY_TYPE_DYNAMIC 0x1000,
        Op_allocate 50 ''main.c'' 35 MEMORY_TYPE_TEMPORARY 0x2000,
        Op_free 0x1000 ''main.c'' 50,
        Op_free 0x2000 ''main.c'' 51,
        Op_report] (program_start {}) = Return () (generate_memory_report demo_4)"
proof -
  have init: "memory_manager_init (program_start {}) = program_start {}"
    by (simp add: memory_manager_init_def program_start_def)
  show ?thesis
    by (simp add: init demo_allocate_1 demo_allocate_2 demo_free_1 demo_free_2)
qed

text \<open>
  C10. After any sequence of calls of the four public operations from the start of the
  program that returns, every slot of the table has status \<open>MEMORY_STATUS_ALLOCATED\<close>: the
  slots whose pointer is not \<open>NULL\<close>, and the empty ones too, since the status of a
  zeroed slot is the enumerator 0. So neither \<open>MEMORY_STATUS_FREED\<close>, which
  \<^verbatim>\<open>safe_memory_free\<close> stores and then erases with its \<^verbatim>\<open>memset\<close>, nor
  \<open>MEMORY_STATUS_CORRUPTED\<close>, which nothing stores, is in the table between two calls.
\<close>

theorem only_allocated_status_between_calls:
  assumes "run xs (program_start h) = Return u s"
  shows "\<forall>i<MAX_TRACKED_BLOCKS.
           status (blocks (g_memory_tracker s) ! i) = MEMORY_STATUS_ALLOCATED \<and>
           status (blocks (g_memory_tracker s) ! i) \<noteq> MEMORY_STATUS_FREED \<and>
           status (blocks (g_memory_tracker s) ! i) \<noteq> MEMORY_STATUS_CORRUPTED"
proof (intro allI impI)
  fix i assume i: "i < MAX_TRACKED_BLOCKS"
  from table_invariant_program_start assms have "table_invariant (g_memory_tracker s)"
    by (rule table_invariant_run)
  then have len: "length (blocks (g_memory_tracker s)) = MAX_TRACKED_BLOCKS"
    and all: "\<forall>b\<in>set (blocks (g_memory_tracker s)). status b = MEMORY_STATUS_ALLOCATED"
    by (simp_all add: table_invariant_def tracker_wf_def statuses_allocated_def list_all_iff)
  from i len have "blocks (g_memory_tracker s) ! i \<in> set (blocks (g_memory_tracker s))"
    by simp
  with all have "status (blocks (g_memory_tracker s) ! i) = MEMORY_STATUS_ALLOCATED"
    by (rule bspec)
  then show "status (blocks (g_memory_tracker s) ! i) = MEMORY_STATUS_ALLOCATED \<and>
           status (blocks (g_memory_tracker s) ! i) \<noteq> MEMORY_STATUS_FREED \<and>
           status (blocks (g_memory_tracker s) ! i) \<noteq> MEMORY_STATUS_CORRUPTED"
    by simp
qed

theorem only_allocated_status_between_calls_witness:
  "run [Op_init,
        Op_allocate 20 ''main.c'' 24 MEMORY_TYPE_DYNAMIC 0x1000,
        Op_allocate 50 ''main.c'' 35 MEMORY_TYPE_TEMPORARY 0x2000,
        Op_free 0x1000 ''main.c'' 50,
        Op_free 0x2000 ''main.c'' 51,
        Op_report] (program_start {}) = Return () (generate_memory_report demo_4) \<and>
   status (blocks (g_memory_tracker (generate_memory_report demo_4)) ! 0) =
     MEMORY_STATUS_ALLOCATED \<and>
   pointer (blocks (g_memory_tracker (generate_memory_report demo_4)) ! 0) = NULL"
proof -
  have "(0::nat) < MAX_TRACKED_BLOCKS" by (simp add: MAX_TRACKED_BLOCKS_def)
  with only_allocated_status_between_calls [OF demo_run_4]
  have "status (blocks (g_memory_tracker (generate_memory_report demo_4)) ! 0) =
     MEMORY_STATUS_ALLOCATED"
    by blast
  moreover have "pointer (blocks (g_memory_tracker (generate_memory_report demo_4)) ! 0) = NULL"
    by (simp add: generate_memory_report_eq demo_blocks zero_MemoryBlock_def)
  ultimately show ?thesis using demo_run_4 by simp
qed

section \<open>The table at capacity\<close>

lemma below_capacity_has_free_slot:
  assumes inv: "table_invariant t"
    and c: "current_block_count t < of_nat MAX_TRACKED_BLOCKS"
  shows "\<exists>i. first_slot t NULL i"
proof -
  have "\<not> no_slot t NULL"
  proof
    assume no: "no_slot t NULL"
    from inv have len: "length (blocks t) = MAX_TRACKED_BLOCKS"
      and cnt: "unat (current_block_count t) = length (filter occupied (blocks t))"
      by (simp_all add: table_invariant_def tracker_wf_def aggregates_consistent_def
          count_occupied_def)
    have "\<forall>b\<in>set (blocks t). occupied b"
    proof
      fix b assume "b \<in> set (blocks t)"
      then obtain j where "j < length (blocks t)" and "b = blocks t ! j"
        by (auto simp: in_set_conv_nth)
      with no len show "occupied b"
        by (simp add: no_slot_def occupied_def)
    qed
    then have "filter occupied (blocks t) = blocks t"
      by (simp add: filter_id_conv)
    with cnt len have "unat (current_block_count t) = MAX_TRACKED_BLOCKS" by simp
    moreover from c have "unat (current_block_count t) < MAX_TRACKED_BLOCKS"
      by (simp add: word_less_nat_alt MAX_TRACKED_BLOCKS_def)
    ultimately show False by simp
  qed
  with first_slot_or_none [of t NULL] show ?thesis by simp
qed

lemma demo_run_1:
  "run [Op_init, Op_allocate 20 ''main.c'' 24 MEMORY_TYPE_DYNAMIC 0x1000] (program_start {}) =
     Return () demo_1"
proof -
  have init: "memory_manager_init (program_start {}) = program_start {}"
    by (simp add: memory_manager_init_def program_start_def)
  show ?thesis
    by (simp add: init demo_allocate_1)
qed

text \<open>
  C3. A call of the allocation with a size other than 0 while \<^verbatim>\<open>current_block_count\<close>
  is 1000 (or more) writes \<^verbatim>\<open>ERROR: Memory tracker full\<close> to \<^verbatim>\<open>stderr\<close> and returns
  \<open>NULL\<close>; the state is otherwise the same, so the table and both counters are unchanged
  and \<^verbatim>\<open>malloc\<close> is not called, whatever it would have answered. In a state reached
  from the start of the program by any sequence of calls, a call with a size other than 0
  while \<^verbatim>\<open>current_block_count\<close> is below 1000 and \<^verbatim>\<open>malloc\<close> answers a block
  returns that block, stored in the first free slot of the table.
\<close>

theorem capacity_boundary:
  "(n \<noteq> 0 \<and> of_nat MAX_TRACKED_BLOCKS \<le> current_block_count (g_memory_tracker s) \<longrightarrow>
      safe_memory_allocate n f l ty answer s =
        Return NULL (s\<lparr> trace := trace s @ [Stderr Error_memory_tracker_full] \<rparr>)) \<and>
   (run xs (program_start h) = Return u s \<and> n \<noteq> 0 \<and>
    current_block_count (g_memory_tracker s) < of_nat MAX_TRACKED_BLOCKS \<and> answer \<noteq> NULL \<longrightarrow>
      (\<exists>i. first_slot (g_memory_tracker s) NULL i \<and>
           safe_memory_allocate n f l ty answer s =
             Return answer (allocate_at n f l ty answer i s)))"
proof (intro conjI impI)
  assume "n \<noteq> 0 \<and> of_nat MAX_TRACKED_BLOCKS \<le> current_block_count (g_memory_tracker s)"
  then show "safe_memory_allocate n f l ty answer s =
        Return NULL (s\<lparr> trace := trace s @ [Stderr Error_memory_tracker_full] \<rparr>)"
    by (simp add: allocate_full)
next
  assume a: "run xs (program_start h) = Return u s \<and> n \<noteq> 0 \<and>
    current_block_count (g_memory_tracker s) < of_nat MAX_TRACKED_BLOCKS \<and> answer \<noteq> NULL"
  then have "table_invariant (g_memory_tracker s)"
    using table_invariant_program_start table_invariant_run by blast
  with a obtain i where i: "first_slot (g_memory_tracker s) NULL i"
    using below_capacity_has_free_slot by blast
  with a have "safe_memory_allocate n f l ty answer s =
             Return answer (allocate_at n f l ty answer i s)"
    by (simp add: allocate_success_at)
  with i show "\<exists>i. first_slot (g_memory_tracker s) NULL i \<and>
           safe_memory_allocate n f l ty answer s =
             Return answer (allocate_at n f l ty answer i s)"
    by blast
qed

theorem capacity_boundary_witness:
  "current_block_count (g_memory_tracker demo_full) = 1000 \<and>
   safe_memory_allocate 8 ''main.c'' 60 MEMORY_TYPE_PERSISTENT 0x3000 demo_full =
     Return NULL (demo_full\<lparr> trace := [Stderr Error_memory_tracker_full] \<rparr>) \<and>
   run [Op_init, Op_allocate 20 ''main.c'' 24 MEMORY_TYPE_DYNAMIC 0x1000] (program_start {}) =
     Return () demo_1 \<and>
   current_block_count (g_memory_tracker demo_1) = 1 \<and>
   (\<exists>i. first_slot (g_memory_tracker demo_1) NULL i \<and>
        safe_memory_allocate 50 ''main.c'' 35 MEMORY_TYPE_TEMPORARY 0x2000 demo_1 =
          Return 0x2000 (allocate_at 50 ''main.c'' 35 MEMORY_TYPE_TEMPORARY 0x2000 i demo_1))"
proof -
  have full: "current_block_count (g_memory_tracker demo_full) = 1000"
    and tr: "trace demo_full = []"
    by (simp_all add: demo_full_def)
  have one: "current_block_count (g_memory_tracker demo_1) = 1"
    by (simp add: demo_counters)
  note th1 = capacity_boundary
    [of 8 demo_full "''main.c''" 60 MEMORY_TYPE_PERSISTENT "0x3000", THEN conjunct1, rule_format]
  note th2 = capacity_boundary
    [of 50 demo_1 "''main.c''" 35 MEMORY_TYPE_TEMPORARY "0x2000"
        "[Op_init, Op_allocate 20 ''main.c'' 24 MEMORY_TYPE_DYNAMIC 0x1000]" "{}" "()",
      THEN conjunct2, rule_format]
  have a: "safe_memory_allocate 8 ''main.c'' 60 MEMORY_TYPE_PERSISTENT 0x3000 demo_full =
     Return NULL (demo_full\<lparr> trace := [Stderr Error_memory_tracker_full] \<rparr>)"
    using th1 by (simp add: full tr MAX_TRACKED_BLOCKS_def)
  have b: "\<exists>i. first_slot (g_memory_tracker demo_1) NULL i \<and>
        safe_memory_allocate 50 ''main.c'' 35 MEMORY_TYPE_TEMPORARY 0x2000 demo_1 =
          Return 0x2000 (allocate_at 50 ''main.c'' 35 MEMORY_TYPE_TEMPORARY 0x2000 i demo_1)"
    by (rule th2) (intro conjI demo_run_1, simp_all add: one MAX_TRACKED_BLOCKS_def)
  from full a demo_run_1 one b show ?thesis by (intro conjI)
qed

section \<open>When malloc fails\<close>

lemma allocate_tool_malloc_failed:
  "n \<noteq> 0 \<Longrightarrow>
   safe_memory_allocate_tool n f l ty NULL answer_tracking s =
     Exit EXIT_FAILURE
       (s\<lparr> trace := trace s @ [Malloc n NULL, Stderr (Tool_critical_allocation_failed f l)] \<rparr>)"
  by (simp add: safe_memory_allocate_tool_def c_malloc_def fprintf_stderr_def)

text \<open>
  C2, as the claim states it, fails on \<^verbatim>\<open>memory_manager.c\<close>: at the start of the
  program every slot is free, and a request for 20 bytes that \<^verbatim>\<open>malloc\<close> answers with
  \<open>NULL\<close> returns \<open>NULL\<close> to the caller after the diagnostic; the process is not halted.
\<close>

theorem malloc_failure_returns_null_counterexample:
  "(20 :: size_t) \<noteq> 0 \<and>
   find_available_slot (g_memory_tracker (program_start {})) = 0 \<and>
   safe_memory_allocate 20 ''main.c'' 24 MEMORY_TYPE_DYNAMIC NULL (program_start {}) =
     Return NULL
       ((program_start {})
          \<lparr> trace := [Malloc 20 NULL, Stderr (Critical_allocation_failed ''main.c'' 24)] \<rparr>)"
proof -
  have "find_available_slot (g_memory_tracker (program_start {})) = int 0"
    using demo_first_slots(1) unfolding first_slot_def
    by (intro find_available_slot_first) simp_all
  moreover have "safe_memory_allocate 20 ''main.c'' 24 MEMORY_TYPE_DYNAMIC NULL (program_start {}) =
     Return NULL
       ((program_start {})
          \<lparr> trace := trace (program_start {}) @
               [Malloc 20 NULL, Stderr (Critical_allocation_failed ''main.c'' 24)] \<rparr>)"
    by (rule allocate_malloc_failed) (simp_all add: demo_counters MAX_TRACKED_BLOCKS_def)
  ultimately show ?thesis by (simp add: program_start_def)
qed

text \<open>
  C2, amended. When \<^verbatim>\<open>malloc\<close> fails on a request with a size other than 0: the
  table-based tracker (\<^verbatim>\<open>memory_manager.c\<close>), with \<^verbatim>\<open>current_block_count\<close> below
  1000, writes \<^verbatim>\<open>CRITICAL: Allocation failed at <file>:<line>\<close> to \<^verbatim>\<open>stderr\<close> and
  returns \<open>NULL\<close>, the tracker unchanged; the linked-list variant
  (\<^verbatim>\<open>memory_management_tool.c\<close>) writes its diagnostic with the call site and ends
  the process with \<^verbatim>\<open>exit(EXIT_FAILURE)\<close>, returning nothing.
\<close>

theorem malloc_failure_by_variant:
  assumes "n \<noteq> 0"
  shows "(current_block_count (g_memory_tracker s) < of_nat MAX_TRACKED_BLOCKS \<longrightarrow>
            safe_memory_allocate n f l ty NULL s =
              Return NULL
                (s\<lparr> trace := trace s @ [Malloc n NULL, Stderr (Critical_allocation_failed f l)] \<rparr>)) \<and>
         safe_memory_allocate_tool n f l ty' NULL answer_tracking s' =
           Exit EXIT_FAILURE
             (s'\<lparr> trace := trace s' @
                  [Malloc n NULL, Stderr (Tool_critical_allocation_failed f l)] \<rparr>)"
  using assms by (simp add: allocate_malloc_failed allocate_tool_malloc_failed)

theorem malloc_failure_by_variant_witness:
  "safe_memory_allocate 20 ''main.c'' 24 MEMORY_TYPE_DYNAMIC NULL demo_1 =
     Return NULL
       (demo_1\<lparr> trace := trace demo_1 @
           [Malloc 20 NULL, Stderr (Critical_allocation_failed ''main.c'' 24)] \<rparr>) \<and>
   safe_memory_allocate_tool 20 ''tool.c'' 205 MEMORY_TYPE_DYNAMIC_tool NULL 0x9000 demo_tool =
     Exit 1
       (demo_tool\<lparr> trace :=
           [Malloc 20 NULL, Stderr (Tool_critical_allocation_failed ''tool.c'' 205)] \<rparr>)"
proof -
  have n: "(20 :: size_t) \<noteq> 0" by simp
  have c: "current_block_count (g_memory_tracker demo_1) < of_nat MAX_TRACKED_BLOCKS"
    by (simp add: demo_counters MAX_TRACKED_BLOCKS_def)
  note th = malloc_failure_by_variant [OF n, of demo_1 "''main.c''" 24 MEMORY_TYPE_DYNAMIC
      MEMORY_TYPE_DYNAMIC_tool "0x9000" demo_tool]
  from th c have a: "safe_memory_allocate 20 ''main.c'' 24 MEMORY_TYPE_DYNAMIC NULL demo_1 =
     Return NULL
       (demo_1\<lparr> trace := trace demo_1 @
           [Malloc 20 NULL, Stderr (Critical_allocation_failed ''main.c'' 24)] \<rparr>)"
    by blast
  have b: "safe_memory_allocate_tool 20 ''tool.c'' 205 MEMORY_TYPE_DYNAMIC_tool NULL 0x9000 demo_tool =
     Exit 1
       (demo_tool\<lparr> trace :=
           [Malloc 20 NULL, Stderr (Tool_critical_allocation_failed ''tool.c'' 205)] \<rparr>)"
    using malloc_failure_by_variant [OF n, of demo_1 "''tool.c''" 205 MEMORY_TYPE_DYNAMIC
      MEMORY_TYPE_DYNAMIC_tool "0x9000" demo_tool]
    by (simp add: EXIT_FAILURE_def demo_tool_def)
  from a b show ?thesis by (rule conjI)
qed

section \<open>Freeing a handle that is not in the table\<close>

lemma demo_3_untracked: "0x1000 \<notin> set (map pointer (blocks (g_memory_tracker demo_3)))"
proof (rule no_slot_not_tracked [OF _ demo_first_slots(5)])
  show "tracker_wf (g_memory_tracker demo_3)"
    by (simp add: tracker_wf_def demo_blocks MAX_TRACKED_BLOCKS_def)
qed

text \<open>
  C5, as the claim states it, fails on the second free of a handle. After
  \<^verbatim>\<open>h1 = allocate(20)\<close>, \<^verbatim>\<open>h2 = allocate(50)\<close> and \<^verbatim>\<open>free(h1)\<close>, the handle
  \<open>h1 = 0x1000\<close> is not null and is in no slot of the table. A second \<^verbatim>\<open>free(h1)\<close>
  finds no slot, writes its warning and calls \<^verbatim>\<open>free\<close> of the allocator on the block it
  has released already: the behaviour of the program is undefined from there.
\<close>

theorem second_free_counterexample:
  "run [Op_init,
        Op_allocate 20 ''main.c'' 24 MEMORY_TYPE_DYNAMIC 0x1000,
        Op_allocate 50 ''main.c'' 35 MEMORY_TYPE_TEMPORARY 0x2000,
        Op_free 0x1000 ''main.c'' 50] (program_start {}) = Return () demo_3 \<and>
   (0x1000 :: ptr) \<noteq> NULL \<and>
   0x1000 \<notin> set (map pointer (blocks (g_memory_tracker demo_3))) \<and>
   safe_memory_free 0x1000 ''main.c'' 52 demo_3 =
     Undefined_free 0x1000
       (demo_3\<lparr> trace := trace demo_3 @ [Stderr (Warning_untracked_free ''main.c'' 52)] \<rparr>) \<and>
   run [Op_init,
        Op_allocate 20 ''main.c'' 24 MEMORY_TYPE_DYNAMIC 0x1000,
        Op_allocate 50 ''main.c'' 35 MEMORY_TYPE_TEMPORARY 0x2000,
        Op_free 0x1000 ''main.c'' 50,
        Op_free 0x1000 ''main.c'' 52] (program_start {}) =
     Undefined_free 0x1000
       (demo_3\<lparr> trace := trace demo_3 @ [Stderr (Warning_untracked_free ''main.c'' 52)] \<rparr>)"
proof -
  have init: "memory_manager_init (program_start {}) = program_start {}"
    by (simp add: memory_manager_init_def program_start_def)
  have "run [Op_init,
        Op_allocate 20 ''main.c'' 24 MEMORY_TYPE_DYNAMIC 0x1000,
        Op_allocate 50 ''main.c'' 35 MEMORY_TYPE_TEMPORARY 0x2000,
        Op_free 0x1000 ''main.c'' 50,
        Op_free 0x1000 ''main.c'' 52] (program_start {}) =
     Undefined_free 0x1000
       (demo_3\<lparr> trace := trace demo_3 @ [Stderr (Warning_untracked_free ''main.c'' 52)] \<rparr>)"
    by (simp add: init demo_allocate_1 demo_allocate_2 demo_free_1 demo_free_again)
  with demo_run_3 demo_3_untracked demo_free_again show ?thesis by simp
qed

text \<open>
  C5, amended. A call of the free with a handle that is not null and is the pointer of no
  slot, whether the table is empty or not, writes
  \<^verbatim>\<open>WARNING: Untracked memory free at <file>:<line>\<close> to \<^verbatim>\<open>stderr\<close> and then passes
  the handle to \<^verbatim>\<open>free\<close> of the allocator, with the table, both counters and the
  timestamp counter as they were before the call. When the handle is a block the allocator
  currently owns (never tracked, or tracked before the table was initialised again), the
  block is released and the call returns, the tracker still unchanged. When it is not
  (released already, as in a second free of the same handle), that call of \<^verbatim>\<open>free\<close> is
  undefined behaviour: it is made in the state that has the warning written and the tracker
  unchanged, and the program may crash there.
\<close>

theorem untracked_free_warns_then_frees:
  assumes "memory \<noteq> NULL"
    and "\<forall>i<MAX_TRACKED_BLOCKS. pointer (blocks (g_memory_tracker s) ! i) \<noteq> memory"
  shows "safe_memory_free memory f l s =
     (if memory \<in> heap s then
        Return ()
          (s\<lparr> heap := heap s - {memory},
             trace := trace s @ [Stderr (Warning_untracked_free f l), Free memory] \<rparr>)
      else
        Undefined_free memory
          (s\<lparr> trace := trace s @ [Stderr (Warning_untracked_free f l)] \<rparr>))"
  using assms by (intro free_untracked) (simp_all add: no_slot_def)

theorem untracked_free_warns_then_frees_witness:
  "pointer (blocks (g_memory_tracker demo_3) ! 1) = 0x2000 \<and>
   current_block_count (g_memory_tracker demo_3) = 1 \<and>
   total_allocated_memory (g_memory_tracker demo_3) = 50 \<and>
   safe_memory_free 0x5000 ''main.c'' 70 (demo_3\<lparr> heap := {0x2000, 0x5000} \<rparr>) =
     Return ()
       (demo_3\<lparr> heap := {0x2000},
          trace := trace demo_3 @ [Stderr (Warning_untracked_free ''main.c'' 70), Free 0x5000] \<rparr>) \<and>
   g_memory_tracker
     (demo_3\<lparr> heap := {0x2000},
        trace := trace demo_3 @ [Stderr (Warning_untracked_free ''main.c'' 70), Free 0x5000] \<rparr>) =
     g_memory_tracker demo_3 \<and>
   heap demo_3 = {0x2000} \<and>
   safe_memory_free 0x1000 ''main.c'' 52 demo_3 =
     Undefined_free 0x1000
       (demo_3\<lparr> trace := trace demo_3 @ [Stderr (Warning_untracked_free ''main.c'' 52)] \<rparr>) \<and>
   g_memory_tracker
     (demo_3\<lparr> trace := trace demo_3 @ [Stderr (Warning_untracked_free ''main.c'' 52)] \<rparr>) =
     g_memory_tracker demo_3"
proof -
  have table: "pointer (blocks (g_memory_tracker demo_3) ! 1) = 0x2000"
    by (simp add: demo_blocks)
  have nn5: "(0x5000 :: ptr) \<noteq> NULL" and nn1: "(0x1000 :: ptr) \<noteq> NULL" by simp_all
  have no5: "\<forall>i<MAX_TRACKED_BLOCKS.
      pointer (blocks (g_memory_tracker (demo_3\<lparr> heap := {0x2000, 0x5000} \<rparr>)) ! i) \<noteq> 0x5000"
    by (simp add: demo_blocks MAX_TRACKED_BLOCKS_def zero_MemoryBlock_def nth_list_update
        less_Suc_eq)
  have no1: "\<forall>i<MAX_TRACKED_BLOCKS. pointer (blocks (g_memory_tracker demo_3) ! i) \<noteq> 0x1000"
    using demo_first_slots(5) by (simp add: no_slot_def)
  have diff: "{0x2000, 0x5000} - {0x5000} = {0x2000 :: ptr}" by auto
  from untracked_free_warns_then_frees [OF nn5 no5, of "''main.c''" 70]
  have live: "safe_memory_free 0x5000 ''main.c'' 70 (demo_3\<lparr> heap := {0x2000, 0x5000} \<rparr>) =
     Return ()
       (demo_3\<lparr> heap := {0x2000},
          trace := trace demo_3 @ [Stderr (Warning_untracked_free ''main.c'' 70), Free 0x5000] \<rparr>)"
    by (simp add: diff)
  from untracked_free_warns_then_frees [OF nn1 no1, of "''main.c''" 52]
  have again: "safe_memory_free 0x1000 ''main.c'' 52 demo_3 =
     Undefined_free 0x1000
       (demo_3\<lparr> trace := trace demo_3 @ [Stderr (Warning_untracked_free ''main.c'' 52)] \<rparr>)"
    by (simp add: demo_heap)
  from table live again show ?thesis
    by (simp add: demo_counters demo_heap)
qed

section \<open>Freeing a tracked handle\<close>

lemma distinct_map_filter_nth:
  "distinct (map f (filter P xs)) \<Longrightarrow> j < i \<Longrightarrow> i < length xs \<Longrightarrow> P (xs ! i) \<Longrightarrow>
   P (xs ! j) \<Longrightarrow> f (xs ! j) \<noteq> f (xs ! i)"
proof (induction xs arbitrary: i j)
  case Nil
  then show ?case by simp
next
  case (Cons x xs)
  from Cons.prems(2) obtain k where i: "i = Suc k" by (cases i) simp_all
  show ?case
  proof (cases j)
    case 0
    from Cons.prems(3,4) i have k: "k < length xs" and Pk: "P (xs ! k)" by simp_all
    then have "xs ! k \<in> set (filter P xs)" by simp
    then have "f (xs ! k) \<in> set (map f (filter P xs))" by simp
    moreover from Cons.prems(1,5) 0 have "f x \<notin> set (map f (filter P xs))" by simp
    ultimately show ?thesis using 0 i by auto
  next
    case (Suc j')
    from Cons.prems(1) have d: "distinct (map f (filter P xs))"
      by (simp split: if_splits)
    from Cons.prems Suc i have "j' < k" "k < length xs" "P (xs ! k)" "P (xs ! j')"
      by simp_all
    from Cons.IH [OF d this] Suc i show ?thesis by simp
  qed
qed

lemma tracked_slot_is_first:
  assumes wf: "tracker_wf (g_memory_tracker s)" and live: "tracked_live s"
    and p: "p \<noteq> NULL" and i: "i < MAX_TRACKED_BLOCKS"
    and m: "pointer (blocks (g_memory_tracker s) ! i) = p"
  shows "first_slot (g_memory_tracker s) p i \<and> p \<in> heap s"
proof -
  let ?xs = "blocks (g_memory_tracker s)"
  from wf i have len: "i < length ?xs" by (simp add: tracker_wf_def)
  from p m have occ: "occupied (?xs ! i)" by (simp add: occupied_def)
  from live have d: "distinct (map pointer (filter occupied ?xs))"
    and sub: "\<forall>q\<in>set (tracked_pointers (g_memory_tracker s)). q \<in> heap s"
    by (simp_all add: tracked_live_def tracked_pointers_def list_all_iff)
  have "\<forall>j<i. pointer (?xs ! j) \<noteq> p"
  proof (intro allI impI)
    fix j assume j: "j < i"
    show "pointer (?xs ! j) \<noteq> p"
    proof
      assume eq: "pointer (?xs ! j) = p"
      with p have "occupied (?xs ! j)" by (simp add: occupied_def)
      from distinct_map_filter_nth [OF d j len occ this] eq m show False by simp
    qed
  qed
  with i m have first: "first_slot (g_memory_tracker s) p i"
    by (simp add: first_slot_def)
  from len occ have "?xs ! i \<in> set (filter occupied ?xs)" by simp
  then have "pointer (?xs ! i) \<in> set (tracked_pointers (g_memory_tracker s))"
    unfolding tracked_pointers_def by simp
  with sub m have "p \<in> heap s" by auto
  with first show ?thesis ..
qed

lemma demo_run_2:
  "run [Op_init,
        Op_allocate 20 ''main.c'' 24 MEMORY_TYPE_DYNAMIC 0x1000,
        Op_allocate 50 ''main.c'' 35 MEMORY_TYPE_TEMPORARY 0x2000] (program_start {}) =
     Return () demo_2"
proof -
  have init: "memory_manager_init (program_start {}) = program_start {}"
    by (simp add: memory_manager_init_def program_start_def)
  show ?thesis
    by (simp add: init demo_allocate_1 demo_allocate_2)
qed

lemma demo_sound_2:
  "allocator_sound [Op_init,
        Op_allocate 20 ''main.c'' 24 MEMORY_TYPE_DYNAMIC 0x1000,
        Op_allocate 50 ''main.c'' 35 MEMORY_TYPE_TEMPORARY 0x2000] (program_start {})"
proof -
  have init: "memory_manager_init (program_start {}) = program_start {}"
    by (simp add: memory_manager_init_def program_start_def)
  show ?thesis
    by (simp add: init demo_allocate_1 demo_allocate_2 demo_heap)
qed

text \<open>
  C6. A call of the free with a handle that is not null and is the pointer of slot \<open>i\<close>
  returns, and in the state it returns \<^verbatim>\<open>total_allocated_memory\<close> is less by the size of
  slot \<open>i\<close>, \<^verbatim>\<open>current_block_count\<close> is less by one, slot \<open>i\<close> is the zeroed block
  (pointer \<open>NULL\<close>), every other slot is as it was, the block is no longer the allocator's
  and the only thing traced is the call \<^verbatim>\<open>free(handle)\<close>. This holds in every state
  reached from the start of the program by calls whose \<^verbatim>\<open>malloc\<close> answers were fresh
  addresses; and in any state at all in which slot \<open>i\<close> is the first with that pointer and
  the allocator owns the block.
\<close>

theorem tracked_free_clears_slot:
  assumes "memory \<noteq> NULL" and "i < MAX_TRACKED_BLOCKS"
    and "pointer (blocks (g_memory_tracker s) ! i) = memory"
    and "(run xs (program_start h) = Return u s \<and> allocator_sound xs (program_start h)) \<or>
         ((\<forall>j<i. pointer (blocks (g_memory_tracker s) ! j) \<noteq> memory) \<and> memory \<in> heap s)"
  shows "safe_memory_free memory f l s =
     Return ()
       (s\<lparr> heap := heap s - {memory},
          trace := trace s @ [Free memory],
          g_memory_tracker :=
            (g_memory_tracker s)
              \<lparr> blocks := (blocks (g_memory_tracker s))[i := zero_MemoryBlock],
                 current_block_count := current_block_count (g_memory_tracker s) - 1,
                 total_allocated_memory :=
                   total_allocated_memory (g_memory_tracker s)
                   - size_bytes (blocks (g_memory_tracker s) ! i) \<rparr> \<rparr>)"
proof -
  have "first_slot (g_memory_tracker s) memory i \<and> memory \<in> heap s"
    using assms(4)
  proof
    assume r: "run xs (program_start h) = Return u s \<and> allocator_sound xs (program_start h)"
    then have inv: "table_invariant (g_memory_tracker s)"
      using table_invariant_program_start table_invariant_run by blast
    from r have "tracked_live s"
      using table_invariant_program_start tracked_live_program_start tracked_live_run by blast
    with inv assms(1,2,3) show ?thesis
      by (intro tracked_slot_is_first) (simp_all add: table_invariant_def)
  next
    assume "(\<forall>j<i. pointer (blocks (g_memory_tracker s) ! j) \<noteq> memory) \<and> memory \<in> heap s"
    with assms(2,3) show ?thesis by (simp add: first_slot_def)
  qed
  then have first: "first_slot (g_memory_tracker s) memory i" and own: "memory \<in> heap s"
    by simp_all
  from free_tracked [OF assms(1) first, of f l] own show ?thesis
    by (simp add: free_at_def)
qed

theorem tracked_free_clears_slot_witness:
  "safe_memory_free 0x1000 ''main.c'' 50 demo_2 = Return () demo_3 \<and>
   current_block_count (g_memory_tracker demo_2) = 2 \<and>
   total_allocated_memory (g_memory_tracker demo_2) = 70 \<and>
   current_block_count (g_memory_tracker demo_3) = 1 \<and>
   total_allocated_memory (g_memory_tracker demo_3) = 50 \<and>
   blocks (g_memory_tracker demo_3) ! 0 = zero_MemoryBlock \<and>
   blocks (g_memory_tracker demo_3) ! 1 = blocks (g_memory_tracker demo_2) ! 1 \<and>
   heap demo_2 = {0x1000, 0x2000} \<and> heap demo_3 = {0x2000}"
proof -
  have nn: "(0x1000 :: ptr) \<noteq> NULL" by simp
  have i: "(0::nat) < MAX_TRACKED_BLOCKS" by (simp add: MAX_TRACKED_BLOCKS_def)
  have m: "pointer (blocks (g_memory_tracker demo_2) ! 0) = 0x1000"
    by (simp add: demo_blocks)
  have env: "(run [Op_init,
        Op_allocate 20 ''main.c'' 24 MEMORY_TYPE_DYNAMIC 0x1000,
        Op_allocate 50 ''main.c'' 35 MEMORY_TYPE_TEMPORARY 0x2000] (program_start {}) =
          Return () demo_2 \<and>
       allocator_sound [Op_init,
        Op_allocate 20 ''main.c'' 24 MEMORY_TYPE_DYNAMIC 0x1000,
        Op_allocate 50 ''main.c'' 35 MEMORY_TYPE_TEMPORARY 0x2000] (program_start {})) \<or>
      ((\<forall>j<0. pointer (blocks (g_memory_tracker demo_2) ! j) \<noteq> 0x1000) \<and>
       0x1000 \<in> heap demo_2)"
    using demo_run_2 demo_sound_2 by (intro disjI1 conjI)
  from tracked_free_clears_slot [OF nn i m env, of "''main.c''" 50]
  have "safe_memory_free 0x1000 ''main.c'' 50 demo_2 = Return () demo_3"
    by (simp add: demo_3_def free_at_def)
  then show ?thesis
    by (simp add: demo_counters demo_blocks demo_heap)
qed

section \<open>A successful allocation\<close>

text \<open>
  C7. A call of the allocation with a size other than 0, \<^verbatim>\<open>current_block_count\<close> below
  1000, a block from \<^verbatim>\<open>malloc\<close> and a free slot in the table returns the block. Slot
  \<open>i\<close>, the free slot of lowest index, which the scan from index 0 finds, then holds the
  address returned, the size requested, the first 255 bytes of the file name, the line
  number, the category, status \<open>MEMORY_STATUS_ALLOCATED\<close> and the next value of the
  timestamp counter (the last value plus one); every other slot is as it was,
  \<^verbatim>\<open>current_block_count\<close> is greater by one and \<^verbatim>\<open>total_allocated_memory\<close> by the
  size. The only call traced is the \<^verbatim>\<open>malloc\<close>.
\<close>

theorem successful_allocation_fills_first_free_slot:
  assumes "n \<noteq> 0"
    and "current_block_count (g_memory_tracker s) < of_nat MAX_TRACKED_BLOCKS"
    and "answer \<noteq> NULL"
    and "i < MAX_TRACKED_BLOCKS"
    and "pointer (blocks (g_memory_tracker s) ! i) = NULL"
    and "\<forall>j<i. pointer (blocks (g_memory_tracker s) ! j) \<noteq> NULL"
  shows "find_available_slot (g_memory_tracker s) = int i \<and>
     safe_memory_allocate n f l ty answer s =
     Return answer
       (s\<lparr> heap := insert answer (heap s),
          trace := trace s @ [Malloc n answer],
          timestamp_static := timestamp_static s + 1,
          g_memory_tracker :=
            (g_memory_tracker s)
              \<lparr> blocks := (blocks (g_memory_tracker s))
                   [i := \<lparr> pointer = answer, size_bytes = n,
                       filename = take 255 (takeWhile (\<lambda>c. c \<noteq> CHR 0x00) f),
                       line_number = l, type = ty, status = MEMORY_STATUS_ALLOCATED,
                       timestamp = timestamp_static s + 1 \<rparr>],
                 current_block_count := current_block_count (g_memory_tracker s) + 1,
                 total_allocated_memory := total_allocated_memory (g_memory_tracker s) + n \<rparr> \<rparr>)"
proof
  from assms(4,5,6) show "find_available_slot (g_memory_tracker s) = int i"
    by (rule find_available_slot_first)
next
  from allocate_success [OF assms, of f l ty]
  show "safe_memory_allocate n f l ty answer s =
     Return answer
       (s\<lparr> heap := insert answer (heap s),
          trace := trace s @ [Malloc n answer],
          timestamp_static := timestamp_static s + 1,
          g_memory_tracker :=
            (g_memory_tracker s)
              \<lparr> blocks := (blocks (g_memory_tracker s))
                   [i := \<lparr> pointer = answer, size_bytes = n,
                       filename = take 255 (takeWhile (\<lambda>c. c \<noteq> CHR 0x00) f),
                       line_number = l, type = ty, status = MEMORY_STATUS_ALLOCATED,
                       timestamp = timestamp_static s + 1 \<rparr>],
                 current_block_count := current_block_count (g_memory_tracker s) + 1,
                 total_allocated_memory := total_allocated_memory (g_memory_tracker s) + n \<rparr> \<rparr>)"
    by (simp add: strncpy_terminated_def MAX_FILENAME_LENGTH_def)
qed

theorem successful_allocation_fills_first_free_slot_witness:
  "find_available_slot (g_memory_tracker demo_1) = 1 \<and>
   safe_memory_allocate 50 ''main.c'' 35 MEMORY_TYPE_TEMPORARY 0x2000 demo_1 =
     Return 0x2000 demo_2 \<and>
   blocks (g_memory_tracker demo_2) ! 1 =
     \<lparr> pointer = 0x2000, size_bytes = 50, filename = ''main.c'', line_number = 35,
       type = MEMORY_TYPE_TEMPORARY, status = MEMORY_STATUS_ALLOCATED, timestamp = 2 \<rparr> \<and>
   blocks (g_memory_tracker demo_2) ! 0 = blocks (g_memory_tracker demo_1) ! 0 \<and>
   current_block_count (g_memory_tracker demo_1) = 1 \<and>
   current_block_count (g_memory_tracker demo_2) = 2 \<and>
   total_allocated_memory (g_memory_tracker demo_1) = 20 \<and>
   total_allocated_memory (g_memory_tracker demo_2) = 70"
proof -
  have n: "(50 :: size_t) \<noteq> 0" and a: "(0x2000 :: ptr) \<noteq> NULL" by simp_all
  have c: "current_block_count (g_memory_tracker demo_1) < of_nat MAX_TRACKED_BLOCKS"
    by (simp add: demo_counters MAX_TRACKED_BLOCKS_def)
  have i: "(1::nat) < MAX_TRACKED_BLOCKS" by (simp add: MAX_TRACKED_BLOCKS_def)
  have free: "pointer (blocks (g_memory_tracker demo_1) ! 1) = NULL"
    by (simp add: demo_blocks zero_MemoryBlock_def)
  have before: "\<forall>j<1. pointer (blocks (g_memory_tracker demo_1) ! j) \<noteq> NULL"
    by (simp add: demo_blocks)
  note th = successful_allocation_fills_first_free_slot
    [OF n c a i free before, of "''main.c''" 35 MEMORY_TYPE_TEMPORARY]
  from th have slot: "find_available_slot (g_memory_tracker demo_1) = 1" by simp
  from th have ret: "safe_memory_allocate 50 ''main.c'' 35 MEMORY_TYPE_TEMPORARY 0x2000 demo_1 =
     Return 0x2000 demo_2"
    by (simp add: demo_2_def allocate_at_def strncpy_terminated_def MAX_FILENAME_LENGTH_def)
  from slot ret show ?thesis
    by (simp add: demo_counters demo_blocks)
qed

section \<open>The failure returns of the allocation\<close>

text \<open>
  C9. The allocation fails on each of four conditions: size 0; \<^verbatim>\<open>current_block_count\<close>
  at 1000 or more; \<^verbatim>\<open>malloc\<close> answering \<open>NULL\<close>; no slot of the table with a
  \<open>NULL\<close> pointer. On each it returns \<open>NULL\<close>, and whenever it returns \<open>NULL\<close> the
  tracker (every slot and both counters) and the timestamp counter are what they were before
  the call. When the first three conditions do not hold and the table has no free slot, the
  calls traced are the \<^verbatim>\<open>malloc\<close> and the \<^verbatim>\<open>free\<close> of the block it answered, and the
  block is not the allocator's after the call.
\<close>

theorem failed_allocation_leaves_tracker:
  "((n = 0 \<or> of_nat MAX_TRACKED_BLOCKS \<le> current_block_count (g_memory_tracker s) \<or>
     answer = NULL \<or> (\<forall>j<MAX_TRACKED_BLOCKS. pointer (blocks (g_memory_tracker s) ! j) \<noteq> NULL))
    \<longrightarrow> (\<exists>s'. safe_memory_allocate n f l ty answer s = Return NULL s')) \<and>
   (\<forall>s'. safe_memory_allocate n f l ty answer s = Return NULL s' \<longrightarrow>
      g_memory_tracker s' = g_memory_tracker s \<and>
      timestamp_static s' = timestamp_static s \<and>
      (n \<noteq> 0 \<and> current_block_count (g_memory_tracker s) < of_nat MAX_TRACKED_BLOCKS \<and>
       answer \<noteq> NULL \<longrightarrow>
         (\<forall>j<MAX_TRACKED_BLOCKS. pointer (blocks (g_memory_tracker s) ! j) \<noteq> NULL) \<and>
         trace s' = trace s @ [Malloc n answer, Free answer] \<and>
         heap s' = heap s - {answer}))"
proof (rule conjI)
  show "(n = 0 \<or> of_nat MAX_TRACKED_BLOCKS \<le> current_block_count (g_memory_tracker s) \<or>
     answer = NULL \<or> (\<forall>j<MAX_TRACKED_BLOCKS. pointer (blocks (g_memory_tracker s) ! j) \<noteq> NULL))
    \<longrightarrow> (\<exists>s'. safe_memory_allocate n f l ty answer s = Return NULL s')"
  proof (rule impI)
    assume fail: "n = 0 \<or> of_nat MAX_TRACKED_BLOCKS \<le> current_block_count (g_memory_tracker s) \<or>
       answer = NULL \<or> (\<forall>j<MAX_TRACKED_BLOCKS. pointer (blocks (g_memory_tracker s) ! j) \<noteq> NULL)"
    show "\<exists>s'. safe_memory_allocate n f l ty answer s = Return NULL s'"
    proof (cases "n = 0")
      case True
      then show ?thesis by (simp add: allocate_zero)
    next
      case n: False
      show ?thesis
      proof (cases "of_nat MAX_TRACKED_BLOCKS \<le> current_block_count (g_memory_tracker s)")
        case True
        with n show ?thesis by (simp add: allocate_full)
      next
        case False
        then have c: "current_block_count (g_memory_tracker s) < of_nat MAX_TRACKED_BLOCKS"
          by simp
        show ?thesis
        proof (cases "answer = NULL")
          case True
          with n c show ?thesis by (simp add: allocate_malloc_failed)
        next
          case a: False
          with fail n False
          have "\<forall>j<MAX_TRACKED_BLOCKS. pointer (blocks (g_memory_tracker s) ! j) \<noteq> NULL"
            by simp
          with n c a show ?thesis by (simp add: allocate_no_slot)
        qed
      qed
    qed
  qed
next
  show "\<forall>s'. safe_memory_allocate n f l ty answer s = Return NULL s' \<longrightarrow>
      g_memory_tracker s' = g_memory_tracker s \<and>
      timestamp_static s' = timestamp_static s \<and>
      (n \<noteq> 0 \<and> current_block_count (g_memory_tracker s) < of_nat MAX_TRACKED_BLOCKS \<and>
       answer \<noteq> NULL \<longrightarrow>
         (\<forall>j<MAX_TRACKED_BLOCKS. pointer (blocks (g_memory_tracker s) ! j) \<noteq> NULL) \<and>
         trace s' = trace s @ [Malloc n answer, Free answer] \<and>
         heap s' = heap s - {answer})"
  proof (intro allI impI conjI)
    fix s'
    assume ret: "safe_memory_allocate n f l ty answer s = Return NULL s'"
    from allocate_cases [of n f l ty answer s]
    have same: "g_memory_tracker s' = g_memory_tracker s \<and>
        timestamp_static s' = timestamp_static s"
    proof (elim disjE exE conjE)
      fix s''
      assume "safe_memory_allocate n f l ty answer s = Return NULL s''"
        and "g_memory_tracker s'' = g_memory_tracker s"
        and "timestamp_static s'' = timestamp_static s"
      with ret show ?thesis by simp
    next
      fix i
      assume "answer \<noteq> NULL"
        and "safe_memory_allocate n f l ty answer s =
               Return answer (allocate_at n f l ty answer i s)"
      with ret show ?thesis by simp
    qed
    from same show "g_memory_tracker s' = g_memory_tracker s" ..
    from same show "timestamp_static s' = timestamp_static s" ..
    assume live: "n \<noteq> 0 \<and>
       current_block_count (g_memory_tracker s) < of_nat MAX_TRACKED_BLOCKS \<and> answer \<noteq> NULL"
    have no: "no_slot (g_memory_tracker s) NULL"
    proof (rule ccontr)
      assume "\<not> no_slot (g_memory_tracker s) NULL"
      with first_slot_or_none [of "g_memory_tracker s" NULL]
      obtain i where "first_slot (g_memory_tracker s) NULL i" by blast
      with live have "safe_memory_allocate n f l ty answer s =
          Return answer (allocate_at n f l ty answer i s)"
        by (simp add: allocate_success_at)
      with ret live show False by simp
    qed
    {
      fix j assume "j < MAX_TRACKED_BLOCKS"
      with no show "pointer (blocks (g_memory_tracker s) ! j) \<noteq> NULL"
        by (simp add: no_slot_def)
    }
    from live no have "safe_memory_allocate n f l ty answer s =
       Return NULL
         (s\<lparr> heap := heap s - {answer}, trace := trace s @ [Malloc n answer, Free answer] \<rparr>)"
      by (simp add: allocate_no_slot_at)
    with ret have s': "s' = s\<lparr> heap := heap s - {answer},
        trace := trace s @ [Malloc n answer, Free answer] \<rparr>"
      by simp
    show "trace s' = trace s @ [Malloc n answer, Free answer]" unfolding s' by simp
    show "heap s' = heap s - {answer}" unfolding s' by simp
  qed
qed

theorem failed_allocation_leaves_tracker_witness:
  "safe_memory_allocate 8 ''main.c'' 60 MEMORY_TYPE_PERSISTENT 0x3000
     (demo_full\<lparr> g_memory_tracker := (g_memory_tracker demo_full)\<lparr> current_block_count := 999 \<rparr> \<rparr>) =
   Return NULL
     (demo_full\<lparr> g_memory_tracker := (g_memory_tracker demo_full)\<lparr> current_block_count := 999 \<rparr>,
        trace := [Malloc 8 0x3000, Free 0x3000] \<rparr>)"
proof -
  let ?s = "demo_full\<lparr> g_memory_tracker :=
    (g_memory_tracker demo_full)\<lparr> current_block_count := 999 \<rparr> \<rparr>"
  note th = failed_allocation_leaves_tracker
    [of 8 ?s "0x3000" "''main.c''" 60 MEMORY_TYPE_PERSISTENT]
  have no: "\<forall>j<MAX_TRACKED_BLOCKS. pointer (blocks (g_memory_tracker ?s) ! j) \<noteq> NULL"
    by (simp add: demo_full_def MAX_TRACKED_BLOCKS_def)
  with th obtain s' where
    ret: "safe_memory_allocate 8 ''main.c'' 60 MEMORY_TYPE_PERSISTENT 0x3000 ?s = Return NULL s'"
    by blast
  have live: "(8 :: size_t) \<noteq> 0 \<and>
      current_block_count (g_memory_tracker ?s) < of_nat MAX_TRACKED_BLOCKS \<and>
      (0x3000 :: ptr) \<noteq> NULL"
    by (simp add: MAX_TRACKED_BLOCKS_def)
  from th ret live have t: "g_memory_tracker s' = g_memory_tracker ?s"
    and ts: "timestamp_static s' = timestamp_static ?s"
    and tr: "trace s' = trace ?s @ [Malloc 8 0x3000, Free 0x3000]"
    and hp: "heap s' = heap ?s - {0x3000}"
    by blast+
  have "s' = ?s\<lparr> trace := [Malloc 8 0x3000, Free 0x3000] \<rparr>"
    using t ts tr hp by (cases s') (simp add: demo_full_def)
  with ret show ?thesis by simp
qed

section \<open>The report\<close>

lemma occupied_slots_pointers:
  assumes "tracker_wf t"
  shows "map (\<lambda>i. pointer (blocks t ! i)) (occupied_slots t) = tracked_pointers t"
proof -
  from assms have len: "length (blocks t) = MAX_TRACKED_BLOCKS"
    by (simp add: tracker_wf_def)
  have "tracked_pointers t =
          map pointer (filter occupied (map (\<lambda>i. blocks t ! i) [0..<length (blocks t)]))"
    unfolding tracked_pointers_def by (simp only: map_nth)
  also have "\<dots> = map (\<lambda>i. pointer (blocks t ! i))
      (filter (\<lambda>i. pointer (blocks t ! i) \<noteq> NULL) [0..<length (blocks t)])"
    by (simp add: filter_map comp_def occupied_def)
  finally show ?thesis
    by (simp add: occupied_slots_def len)
qed

lemma balance_allocate:
  assumes wf: "tracker_wf (g_memory_tracker s)"
    and ret: "safe_memory_allocate n f l ty a s = Return p s'"
  shows "mset (tracked_pointers (g_memory_tracker s')) =
         mset (tracked_pointers (g_memory_tracker s)) + mset (if p \<noteq> NULL then [p] else [])"
  using allocate_cases [of n f l ty a s]
proof (elim disjE exE conjE)
  fix s''
  assume "safe_memory_allocate n f l ty a s = Return NULL s''"
    and "g_memory_tracker s'' = g_memory_tracker s"
  with ret show ?thesis by simp
next
  fix i
  assume a: "a \<noteq> NULL" and i: "first_slot (g_memory_tracker s) NULL i"
    and eq: "safe_memory_allocate n f l ty a s = Return a (allocate_at n f l ty a i s)"
  from eq ret have p: "p = a" and s': "s' = allocate_at n f l ty a i s" by simp_all
  from tracked_pointers_allocate_at [OF wf a i, of n f l ty] a show ?thesis
    unfolding p s' by simp
qed

lemma balance_free:
  assumes wf: "tracker_wf (g_memory_tracker s)"
    and ret: "safe_memory_free p f l s = Return u s'"
  shows "mset (tracked_pointers (g_memory_tracker s')) + mset (if tracked p s then [p] else []) =
         mset (tracked_pointers (g_memory_tracker s))"
  using free_cases [OF ret]
proof (elim disjE exE conjE)
  assume "p = NULL" and "s' = s\<lparr> trace := trace s @ [Stderr (Warning_freeing_null f l)] \<rparr>"
  then show ?thesis by (simp add: tracked_def)
next
  assume no: "no_slot (g_memory_tracker s) p"
    and s': "s' = s\<lparr> heap := heap s - {p},
                  trace := trace s @ [Stderr (Warning_untracked_free f l), Free p] \<rparr>"
  from no_slot_not_tracked [OF wf no] have "\<not> tracked p s"
    by (simp add: tracked_def)
  then show ?thesis unfolding s' by simp
next
  fix i
  assume p: "p \<noteq> NULL" and i: "first_slot (g_memory_tracker s) p i"
    and s': "s' = free_at p i s"
  from first_slot_tracked [OF wf i] p have "tracked p s"
    by (simp add: tracked_def)
  with tracked_pointers_free_at [OF wf p i] show ?thesis
    unfolding s' by simp
qed

lemma handles_balance:
  "table_invariant (g_memory_tracker s) \<Longrightarrow> Op_init \<notin> set xs \<Longrightarrow> run xs s = Return u s' \<Longrightarrow>
   mset (tracked_pointers (g_memory_tracker s')) + mset (freed_handles xs s) =
   mset (tracked_pointers (g_memory_tracker s)) + mset (allocated_handles xs s)"
proof (induction xs arbitrary: s)
  case Nil
  then show ?case by simp
next
  case (Cons x xs)
  from Cons.prems(3) obtain v s1 where step: "perform x s = Return v s1"
    and rest: "run xs s1 = Return u s'"
    by (cases "perform x s") simp_all
  from Cons.prems(1) step have inv1: "table_invariant (g_memory_tracker s1)"
    by (rule table_invariant_perform)
  from Cons.prems(2) have noinit: "Op_init \<notin> set xs" and x: "x \<noteq> Op_init" by auto
  note ih = Cons.IH [OF inv1 noinit rest]
  from Cons.prems(1) have wf: "tracker_wf (g_memory_tracker s)"
    by (simp add: table_invariant_def)
  show ?case
  proof (cases x)
    case Op_init
    with x show ?thesis by simp
  next
    case (Op_allocate n f l ty a)
    with step obtain p where ret: "safe_memory_allocate n f l ty a s = Return p s1"
      by (cases "safe_memory_allocate n f l ty a s") simp_all
    have A: "allocated_handles (x # xs) s =
        (if p \<noteq> NULL then [p] else []) @ allocated_handles xs s1"
      and F: "freed_handles (x # xs) s = freed_handles xs s1"
      unfolding Op_allocate by (simp_all add: ret)
    have "mset (tracked_pointers (g_memory_tracker s')) + mset (freed_handles (x # xs) s) =
          mset (tracked_pointers (g_memory_tracker s1)) + mset (allocated_handles xs s1)"
      by (simp only: F ih)
    also have "\<dots> = (mset (tracked_pointers (g_memory_tracker s))
            + mset (if p \<noteq> NULL then [p] else [])) + mset (allocated_handles xs s1)"
      by (simp only: balance_allocate [OF wf ret])
    also have "\<dots> = mset (tracked_pointers (g_memory_tracker s))
            + mset (allocated_handles (x # xs) s)"
      by (simp add: A)
    finally show ?thesis .
  next
    case (Op_free p f l)
    with step have ret: "safe_memory_free p f l s = Return v s1" by simp
    have A: "allocated_handles (x # xs) s = allocated_handles xs s1"
      and F: "freed_handles (x # xs) s =
        (if tracked p s then [p] else []) @ freed_handles xs s1"
      unfolding Op_free by (simp_all add: ret)
    have "mset (tracked_pointers (g_memory_tracker s')) + mset (freed_handles (x # xs) s) =
          (mset (tracked_pointers (g_memory_tracker s')) + mset (freed_handles xs s1))
            + mset (if tracked p s then [p] else [])"
      by (simp add: F)
    also have "\<dots> = (mset (tracked_pointers (g_memory_tracker s1))
            + mset (allocated_handles xs s1)) + mset (if tracked p s then [p] else [])"
      by (simp only: ih)
    also have "\<dots> = (mset (tracked_pointers (g_memory_tracker s1))
            + mset (if tracked p s then [p] else [])) + mset (allocated_handles xs s1)"
      by (simp only: ac_simps)
    also have "\<dots> = mset (tracked_pointers (g_memory_tracker s))
            + mset (allocated_handles (x # xs) s)"
      by (simp only: balance_free [OF wf ret] A)
    finally show ?thesis .
  next
    case Op_report
    with step have "g_memory_tracker s1 = g_memory_tracker s"
      by (auto simp: generate_memory_report_eq)
    with ih step show ?thesis
      unfolding Op_report by simp
  qed
qed

lemma sorted_occupied_slots: "sorted_wrt (<) (occupied_slots t)"
  unfolding occupied_slots_def by (intro sorted_wrt_filter) simp

lemma set_occupied_slots:
  "set (occupied_slots t) = {i. i < MAX_TRACKED_BLOCKS \<and> pointer (blocks t ! i) \<noteq> NULL}"
  unfolding occupied_slots_def by auto

lemma demo_occupied_slots:
  "occupied_slots (g_memory_tracker (program_start {})) = []"
  "occupied_slots (g_memory_tracker demo_3) = [Suc 0]"
proof -
  have u1: "[0..<1000] = 0 # [Suc 0..<1000]"
    by (rule upt_conv_Cons) simp
  have u2: "[Suc 0..<1000] = Suc 0 # [Suc (Suc 0)..<1000]"
    by (rule upt_conv_Cons) simp
  have tail: "filter (\<lambda>i. pointer (blocks (g_memory_tracker demo_3) ! i) \<noteq> NULL)
      [Suc (Suc 0)..<1000] = []"
    by (simp add: filter_empty_conv demo_blocks zero_MemoryBlock_def)
  show "occupied_slots (g_memory_tracker demo_3) = [Suc 0]"
    unfolding occupied_slots_def MAX_TRACKED_BLOCKS_def u1 u2
    by (simp add: tail) (simp add: demo_blocks zero_MemoryBlock_def)
  show "occupied_slots (g_memory_tracker (program_start {})) = []"
    unfolding occupied_slots_def MAX_TRACKED_BLOCKS_def
    by (simp add: filter_empty_conv demo_blocks zero_MemoryBlock_def)
qed

lemma demo_tracked: "tracked 0x1000 demo_2"
proof -
  have "tracker_wf (g_memory_tracker demo_2)"
    by (simp add: tracker_wf_def demo_blocks MAX_TRACKED_BLOCKS_def)
  from first_slot_tracked [OF this demo_first_slots(3)] show ?thesis
    by (simp add: tracked_def)
qed

lemma demo_handles:
  "run [Op_allocate 20 ''main.c'' 24 MEMORY_TYPE_DYNAMIC 0x1000,
        Op_allocate 50 ''main.c'' 35 MEMORY_TYPE_TEMPORARY 0x2000,
        Op_free 0x1000 ''main.c'' 50] (memory_manager_init (program_start {})) = Return () demo_3"
  "allocated_handles
       [Op_allocate 20 ''main.c'' 24 MEMORY_TYPE_DYNAMIC 0x1000,
        Op_allocate 50 ''main.c'' 35 MEMORY_TYPE_TEMPORARY 0x2000,
        Op_free 0x1000 ''main.c'' 50] (memory_manager_init (program_start {})) =
     [0x1000, 0x2000]"
  "freed_handles
       [Op_allocate 20 ''main.c'' 24 MEMORY_TYPE_DYNAMIC 0x1000,
        Op_allocate 50 ''main.c'' 35 MEMORY_TYPE_TEMPORARY 0x2000,
        Op_free 0x1000 ''main.c'' 50] (memory_manager_init (program_start {})) = [0x1000]"
proof -
  have init: "memory_manager_init (program_start {}) = program_start {}"
    by (simp add: memory_manager_init_def program_start_def)
  show "run [Op_allocate 20 ''main.c'' 24 MEMORY_TYPE_DYNAMIC 0x1000,
        Op_allocate 50 ''main.c'' 35 MEMORY_TYPE_TEMPORARY 0x2000,
        Op_free 0x1000 ''main.c'' 50] (memory_manager_init (program_start {})) = Return () demo_3"
    by (simp add: init demo_allocate_1 demo_allocate_2 demo_free_1)
  show "allocated_handles
       [Op_allocate 20 ''main.c'' 24 MEMORY_TYPE_DYNAMIC 0x1000,
        Op_allocate 50 ''main.c'' 35 MEMORY_TYPE_TEMPORARY 0x2000,
        Op_free 0x1000 ''main.c'' 50] (memory_manager_init (program_start {})) =
     [0x1000, 0x2000]"
    by (simp add: init demo_allocate_1 demo_allocate_2 demo_free_1)
  show "freed_handles
       [Op_allocate 20 ''main.c'' 24 MEMORY_TYPE_DYNAMIC 0x1000,
        Op_allocate 50 ''main.c'' 35 MEMORY_TYPE_TEMPORARY 0x2000,
        Op_free 0x1000 ''main.c'' 50] (memory_manager_init (program_start {})) = [0x1000]"
    by (simp add: init demo_allocate_1 demo_allocate_2 demo_free_1 demo_tracked)
qed

text \<open>
  C8. In any state, the report changes nothing but the output: the table, the counters,
  the timestamp counter and the heap of the state it returns are those of the state it got
  (it calls neither \<^verbatim>\<open>malloc\<close> nor \<^verbatim>\<open>free\<close>, so it is safe with no slot occupied as
  with any other table). It prints the header, \<^verbatim>\<open>current_block_count\<close>,
  \<^verbatim>\<open>total_allocated_memory\<close>, and then one line for each slot whose pointer is not
  \<open>NULL\<close> and for no other, in ascending order of the slot index, with the index, pointer,
  size, type and status of the slot. After an initialisation followed by any sequence of
  allocations, frees and reports that returns, with \<open>N\<close> allocations that returned a
  handle and \<open>M\<close> frees that found their handle in the table, \<open>M \<le> N\<close>, the report has
  \<open>N - M\<close> block lines, and their pointers are, as a multiset, the handles returned less
  the handles freed.
\<close>

theorem report_lists_occupied_slots:
  "generate_memory_report s =
     s\<lparr> trace := trace s @
          [Stdout Report_header,
           Stdout (Report_total_blocks (current_block_count (g_memory_tracker s))),
           Stdout (Report_total_allocated (total_allocated_memory (g_memory_tracker s)))] @
          map (\<lambda>i. Stdout (Report_block i
                  (pointer (blocks (g_memory_tracker s) ! i))
                  (size_bytes (blocks (g_memory_tracker s) ! i))
                  (type (blocks (g_memory_tracker s) ! i))
                  (status (blocks (g_memory_tracker s) ! i))))
            (occupied_slots (g_memory_tracker s)) \<rparr> \<and>
   g_memory_tracker (generate_memory_report s) = g_memory_tracker s \<and>
   sorted_wrt (<) (occupied_slots (g_memory_tracker s)) \<and>
   set (occupied_slots (g_memory_tracker s)) =
     {i. i < MAX_TRACKED_BLOCKS \<and> pointer (blocks (g_memory_tracker s) ! i) \<noteq> NULL} \<and>
   (Op_init \<notin> set xs \<and> run xs (memory_manager_init s0) = Return u s \<longrightarrow>
      length (freed_handles xs (memory_manager_init s0))
        \<le> length (allocated_handles xs (memory_manager_init s0)) \<and>
      length (occupied_slots (g_memory_tracker s)) =
        length (allocated_handles xs (memory_manager_init s0))
        - length (freed_handles xs (memory_manager_init s0)) \<and>
      mset (map (\<lambda>i. pointer (blocks (g_memory_tracker s) ! i))
             (occupied_slots (g_memory_tracker s))) =
        mset (allocated_handles xs (memory_manager_init s0))
        - mset (freed_handles xs (memory_manager_init s0)))"
proof (intro conjI impI)
  show "generate_memory_report s =
     s\<lparr> trace := trace s @
          [Stdout Report_header,
           Stdout (Report_total_blocks (current_block_count (g_memory_tracker s))),
           Stdout (Report_total_allocated (total_allocated_memory (g_memory_tracker s)))] @
          map (\<lambda>i. Stdout (Report_block i
                  (pointer (blocks (g_memory_tracker s) ! i))
                  (size_bytes (blocks (g_memory_tracker s) ! i))
                  (type (blocks (g_memory_tracker s) ! i))
                  (status (blocks (g_memory_tracker s) ! i))))
            (occupied_slots (g_memory_tracker s)) \<rparr>"
    by (simp add: generate_memory_report_eq report_block_def Let_def)
  show "g_memory_tracker (generate_memory_report s) = g_memory_tracker s"
    by (simp add: generate_memory_report_eq)
  show "sorted_wrt (<) (occupied_slots (g_memory_tracker s))"
    by (rule sorted_occupied_slots)
  show "set (occupied_slots (g_memory_tracker s)) =
     {i. i < MAX_TRACKED_BLOCKS \<and> pointer (blocks (g_memory_tracker s) ! i) \<noteq> NULL}"
    by (rule set_occupied_slots)
next
  assume a: "Op_init \<notin> set xs \<and> run xs (memory_manager_init s0) = Return u s"
  let ?s0 = "memory_manager_init s0"
  let ?A = "allocated_handles xs ?s0" and ?F = "freed_handles xs ?s0"
  let ?R = "map (\<lambda>i. pointer (blocks (g_memory_tracker s) ! i))
             (occupied_slots (g_memory_tracker s))"
  have inv0: "table_invariant (g_memory_tracker ?s0)"
    by (simp add: memory_manager_init_def table_invariant_zero)
  with a have inv: "table_invariant (g_memory_tracker s)"
    using table_invariant_run by blast
  then have R: "?R = tracked_pointers (g_memory_tracker s)"
    by (intro occupied_slots_pointers) (simp add: table_invariant_def)
  have start: "tracked_pointers (g_memory_tracker ?s0) = []"
    by (simp add: memory_manager_init_def tracked_pointers_zero)
  from a have "mset (tracked_pointers (g_memory_tracker s)) + mset ?F =
      mset (tracked_pointers (g_memory_tracker ?s0)) + mset ?A"
    by (intro handles_balance [OF inv0]) simp_all
  then have bal: "mset ?R + mset ?F = mset ?A"
    by (simp only: R start) simp
  then have "size (mset ?R + mset ?F) = size (mset ?A)" by (rule arg_cong)
  then have len: "length (occupied_slots (g_memory_tracker s)) + length ?F = length ?A"
    by simp
  from len show "length ?F \<le> length ?A" by simp
  from len show "length (occupied_slots (g_memory_tracker s)) = length ?A - length ?F"
    by simp
  from bal have "mset ?A - mset ?F = mset ?R"
    by (metis add_diff_cancel_right')
  then show "mset ?R = mset ?A - mset ?F" by (rule sym)
qed

theorem report_lists_occupied_slots_witness:
  "generate_memory_report demo_3 =
     demo_3\<lparr> trace := trace demo_3 @
        [Stdout Report_header,
         Stdout (Report_total_blocks 1),
         Stdout (Report_total_allocated 50),
         Stdout (Report_block 1 0x2000 50 MEMORY_TYPE_TEMPORARY MEMORY_STATUS_ALLOCATED)] \<rparr> \<and>
   generate_memory_report (program_start {}) =
     (program_start {})
       \<lparr> trace := [Stdout Report_header, Stdout (Report_total_blocks 0),
                   Stdout (Report_total_allocated 0)] \<rparr> \<and>
   run [Op_allocate 20 ''main.c'' 24 MEMORY_TYPE_DYNAMIC 0x1000,
        Op_allocate 50 ''main.c'' 35 MEMORY_TYPE_TEMPORARY 0x2000,
        Op_free 0x1000 ''main.c'' 50] (memory_manager_init (program_start {})) = Return () demo_3 \<and>
   allocated_handles
       [Op_allocate 20 ''main.c'' 24 MEMORY_TYPE_DYNAMIC 0x1000,
        Op_allocate 50 ''main.c'' 35 MEMORY_TYPE_TEMPORARY 0x2000,
        Op_free 0x1000 ''main.c'' 50] (memory_manager_init (program_start {})) =
     [0x1000, 0x2000] \<and>
   freed_handles
       [Op_allocate 20 ''main.c'' 24 MEMORY_TYPE_DYNAMIC 0x1000,
        Op_allocate 50 ''main.c'' 35 MEMORY_TYPE_TEMPORARY 0x2000,
        Op_free 0x1000 ''main.c'' 50] (memory_manager_init (program_start {})) = [0x1000] \<and>
   length (occupied_slots (g_memory_tracker demo_3)) = 1 \<and>
   mset (map (\<lambda>i. pointer (blocks (g_memory_tracker demo_3) ! i))
          (occupied_slots (g_memory_tracker demo_3))) = {#0x2000#}"
proof -
  let ?xs = "[Op_allocate 20 ''main.c'' 24 MEMORY_TYPE_DYNAMIC 0x1000,
        Op_allocate 50 ''main.c'' 35 MEMORY_TYPE_TEMPORARY 0x2000,
        Op_free 0x1000 ''main.c'' 50]"
  note th = report_lists_occupied_slots [of demo_3 ?xs "program_start {}" "()"]
  note th0 = report_lists_occupied_slots [of "program_start {}" "[]" "program_start {}" "()"]
  have noinit: "Op_init \<notin> set ?xs" by simp
  from th have rep: "generate_memory_report demo_3 =
     demo_3\<lparr> trace := trace demo_3 @
        [Stdout Report_header,
         Stdout (Report_total_blocks 1),
         Stdout (Report_total_allocated 50),
         Stdout (Report_block 1 0x2000 50 MEMORY_TYPE_TEMPORARY MEMORY_STATUS_ALLOCATED)] \<rparr>"
    by (simp add: demo_occupied_slots demo_counters demo_blocks)
  from th0 have rep0: "generate_memory_report (program_start {}) =
     (program_start {})
       \<lparr> trace := [Stdout Report_header, Stdout (Report_total_blocks 0),
                   Stdout (Report_total_allocated 0)] \<rparr>"
    by (simp add: demo_occupied_slots demo_counters) (simp add: program_start_def)
  from th noinit demo_handles(1)
  have len: "length (occupied_slots (g_memory_tracker demo_3)) =
        length (allocated_handles ?xs (memory_manager_init (program_start {})))
        - length (freed_handles ?xs (memory_manager_init (program_start {})))"
    and ms: "mset (map (\<lambda>i. pointer (blocks (g_memory_tracker demo_3) ! i))
             (occupied_slots (g_memory_tracker demo_3))) =
        mset (allocated_handles ?xs (memory_manager_init (program_start {})))
        - mset (freed_handles ?xs (memory_manager_init (program_start {})))"
    by blast+
  from len have len1: "length (occupied_slots (g_memory_tracker demo_3)) = 1"
    by (simp only: demo_handles) simp
  from ms have ms1: "mset (map (\<lambda>i. pointer (blocks (g_memory_tracker demo_3) ! i))
          (occupied_slots (g_memory_tracker demo_3))) = {#0x2000#}"
    by (simp only: demo_handles) simp
  from rep rep0 demo_handles len1 ms1 show ?thesis by (intro conjI)
qed

end
